theory Spec2Isabelle
  imports Main "HOL-Library.Char_ord" "HOL-Library.List_Lexorder"
begin

section \<open>Data model\<close>

text \<open>
  The classes \<^verbatim>\<open>Feature\<close>, \<^verbatim>\<open>HopsworksUdf\<close>, \<^verbatim>\<open>TransformationFunction\<close> and
  \<^verbatim>\<open>FeatureGroup\<close> are declared outside the files under verification; they are
  modelled as records of exactly the attributes that the verified functions read or
  write.
\<close>

record feature =
  name :: string
  type :: "string option"
  on_demand :: bool

text \<open>
  The constructor \<^verbatim>\<open>feature.Feature(name, type, on_demand=...)\<close>. It does not store the
  name it is given but \<^verbatim>\<open>util.autofix_feature_name(name)\<close>; that sanitizer is declared
  outside the files under verification and is the parameter \<open>autofix_name\<close>. The type and
  the flag are stored as given.
\<close>

definition Feature :: "(string \<Rightarrow> string) \<Rightarrow> string \<Rightarrow> string \<Rightarrow> bool \<Rightarrow> feature" where
  "Feature autofix_name feature_name feature_type is_on_demand =
     \<lparr>name = autofix_name feature_name, type = Some feature_type, on_demand = is_on_demand\<rparr>"

text \<open>
  A sanitizer for evaluation, after the warnings of \<^verbatim>\<open>convert_to_default_dataframe\<close>:
  upper-case letters become lower-case, spaces become underscores.
\<close>

definition sanitize_char :: "char \<Rightarrow> char" where
  "sanitize_char c =
     (if c = CHR '' '' then CHR ''_''
      else if CHR ''A'' \<le> c \<and> c \<le> CHR ''Z'' then char_of (of_char c + (32 :: nat))
      else c)"

text \<open>
  Values that a dataframe cell or an option dictionary may hold: \<^verbatim>\<open>None\<close>, booleans,
  (unbounded) integers, floats, strings and byte strings. A byte string is a list of
  8-bit characters. A float is represented by its \<^verbatim>\<open>str\<close> form, such as \<^verbatim>\<open>1.5\<close>,
  \<^verbatim>\<open>nan\<close> or \<^verbatim>\<open>-0.0\<close>, which determines it.
\<close>

datatype pyval =
  PyNone | PyBool bool | PyInt int | PyFloat string | PyStr string | PyBytes string

text \<open>Python truthiness, as used by \<^verbatim>\<open>if x:\<close>.\<close>

fun truthy :: "pyval \<Rightarrow> bool" where
  "truthy PyNone = False"
| "truthy (PyBool b) = b"
| "truthy (PyInt i) = (i \<noteq> 0)"
| "truthy (PyFloat f) = (f \<noteq> ''0.0'' \<and> f \<noteq> ''-0.0'')"
| "truthy (PyStr s) = (s \<noteq> [])"
| "truthy (PyBytes s) = (s \<noteq> [])"

text \<open>Decimal rendering of integers, as \<^verbatim>\<open>str\<close> and f-strings produce it.\<close>

definition digit_char :: "nat \<Rightarrow> char" where
  "digit_char d = ''0123456789abcdef'' ! d"

fun str_nat :: "nat \<Rightarrow> string" where
  "str_nat k = (if k < 10 then [digit_char k] else str_nat (k div 10) @ [digit_char (k mod 10)])"

declare str_nat.simps [simp del]

definition str_int :: "int \<Rightarrow> string" where
  "str_int i = (if i < 0 then CHR ''-'' # str_nat (nat (- i)) else str_nat (nat i))"

text \<open>\<^verbatim>\<open>repr\<close> of a byte string, which is what \<^verbatim>\<open>str\<close> returns for \<^verbatim>\<open>bytes\<close>.\<close>

definition bytes_quote :: "string \<Rightarrow> char" where
  "bytes_quote bs =
     (if CHR 0x27 \<in> set bs \<and> CHR 0x22 \<notin> set bs then CHR 0x22 else CHR 0x27)"

definition byte_repr :: "char \<Rightarrow> char \<Rightarrow> string" where
  "byte_repr quote c =
     (if c = quote \<or> c = CHR 0x5C then [CHR 0x5C, c]
      else if c = CHR 0x09 then [CHR 0x5C, CHR ''t'']
      else if c = CHR 0x0A then [CHR 0x5C, CHR ''n'']
      else if c = CHR 0x0D then [CHR 0x5C, CHR ''r'']
      else if (of_char c :: nat) < 32 \<or> (of_char c :: nat) \<ge> 127
        then [CHR 0x5C, CHR ''x'', digit_char (of_char c div 16), digit_char (of_char c mod 16)]
      else [c])"

definition bytes_repr :: "string \<Rightarrow> string" where
  "bytes_repr bs =
     CHR ''b'' # bytes_quote bs # concat (map (byte_repr (bytes_quote bs)) bs) @ [bytes_quote bs]"

fun py_str :: "pyval \<Rightarrow> string" where
  "py_str PyNone = ''None''"
| "py_str (PyBool b) = (if b then ''True'' else ''False'')"
| "py_str (PyInt i) = str_int i"
| "py_str (PyFloat f) = f"
| "py_str (PyStr s) = s"
| "py_str (PyBytes bs) = bytes_repr bs"

text \<open>A dictionary of options, and \<^verbatim>\<open>d.get(k, default)\<close>.\<close>

type_synonym options = "string \<rightharpoonup> pyval"

definition dict_get :: "options \<Rightarrow> string \<Rightarrow> pyval \<Rightarrow> pyval" where
  "dict_get d k dflt = (case d k of None \<Rightarrow> dflt | Some v \<Rightarrow> v)"

text \<open>
  A Kafka delivery error object: its \<^verbatim>\<open>code()\<close> and its \<^verbatim>\<open>str\<close> form. The two codes
  that the acknowledgment callback names are constants of the client library, with the
  values the library assigns them.
\<close>

datatype kafka_error = KafkaError (code: int) (err_str: string)

definition TOPIC_AUTHORIZATION_FAILED :: int where
  "TOPIC_AUTHORIZATION_FAILED = 29"

definition MSG_TIMED_OUT :: int where
  "MSG_TIMED_OUT = - 192"

text \<open>
  The exceptions that the modelled code raises or lets through. \<^verbatim>\<open>Raised e\<close> is what
  \<^verbatim>\<open>raise err\<close> surfaces for the delivery error \<^verbatim>\<open>e\<close>; \<^verbatim>\<open>SchemaMismatchError\<close>
  carries the names of the unmatched features.
\<close>

datatype exn =
    BufferError string
  | Raised kafka_error
  | AttributeError string
  | KeyError string
  | UnboundLocalError string
  | TypeError string
  | FeatureStoreException string
  | DataValidationException string
  | SchemaMismatchError "string list"
  | ValueError string
  | IndexError string
  | DuplicateError string

datatype transformation_type = ON_DEMAND | MODEL_DEPENDENT

datatype udf_execution_mode = PANDAS | PYTHON

text \<open>
  \<^verbatim>\<open>get_udf_python\<close> is the row-wise callable returned by \<^verbatim>\<open>get_udf\<close> in Python
  execution mode (positional arguments to outputs), \<^verbatim>\<open>get_udf_pandas\<close> the vectorised
  one (argument columns to output columns). \<^verbatim>\<open>dropped_features\<close> may be \<^verbatim>\<open>None\<close>.
  \<^verbatim>\<open>execution_mode udf online\<close> is
  \<^verbatim>\<open>udf.execution_mode.get_current_execution_mode(online=online)\<close>.
\<close>

record hopsworks_udf =
  function_name :: string
  transformation_features :: "string list"
  output_column_names :: "string list"
  return_types :: "string list"
  dropped_features :: "string list option"
  execution_mode :: "bool \<Rightarrow> udf_execution_mode"
  get_udf_python :: "pyval list \<Rightarrow> pyval list"
  get_udf_pandas :: "pyval list list \<Rightarrow> pyval list list"

record transformation_function =
  hopsworks_udf :: hopsworks_udf
  transformation_type :: transformation_type

text \<open>The handle of a job: its configuration dictionary.\<close>

datatype job = Job (config: "string \<rightharpoonup> string")

text \<open>
  A feature group. \<^verbatim>\<open>is_external\<close> is \<^verbatim>\<open>isinstance(feature_group, ExternalFeatureGroup)\<close>,
  \<^verbatim>\<open>fg_id\<close> is the attribute \<^verbatim>\<open>_id\<close> (\<^verbatim>\<open>None\<close> until the feature group is registered),
  \<^verbatim>\<open>embedding_index\<close> tells whether an embedding index is present.
\<close>

record feature_group =
  is_external :: bool
  fg_id :: "nat option"
  fg_name :: string
  feature_store_id :: nat
  fg_features :: "feature list"
  primary_key :: "string list"
  online_enabled :: bool
  stream :: bool
  embedding_index :: bool
  time_travel_format :: "string option"
  transformation_functions :: "transformation_function list"
  multi_part_insert :: bool
  online_topic_name :: string
  materialization_job :: job

section \<open>Schema reconciliation: on-demand transformation outputs\<close>

text \<open>
  The list comprehension of \<^verbatim>\<open>_update_feature_group_schema_on_demand_transformations\<close>:
  one on-demand feature for each pair of \<^verbatim>\<open>zip(output_column_names, return_types)\<close>.
\<close>

definition on_demand_features_of ::
  "(string \<Rightarrow> string) \<Rightarrow> transformation_function \<Rightarrow> feature list"
where
  "on_demand_features_of autofix_name tf =
     map (\<lambda>(output_column_name, return_type).
            Feature autofix_name output_column_name return_type True)
         (zip (output_column_names (hopsworks_udf tf)) (return_types (hopsworks_udf tf)))"

text \<open>
  The \<^verbatim>\<open>for tf in feature_group.transformation_functions\<close> loop, threading the two
  accumulators \<^verbatim>\<open>transformed_features\<close> and \<^verbatim>\<open>dropped_features\<close>. The guard
  \<^verbatim>\<open>if tf.hopsworks_udf.dropped_features\<close> skips \<^verbatim>\<open>None\<close> and the empty list.
\<close>

fun collect_on_demand ::
  "(string \<Rightarrow> string) \<Rightarrow> transformation_function list \<Rightarrow> feature list \<times> string list
     \<Rightarrow> feature list \<times> string list"
where
  "collect_on_demand autofix_name [] acc = acc"
| "collect_on_demand autofix_name (tf # tfs) (transformed_features, dropped) =
     collect_on_demand autofix_name tfs
       (transformed_features @ on_demand_features_of autofix_name tf,
        (case dropped_features (hopsworks_udf tf) of
           None \<Rightarrow> dropped
         | Some d \<Rightarrow> if d \<noteq> [] then dropped @ d else dropped))"

definition update_feature_group_schema_on_demand_transformations ::
  "(string \<Rightarrow> string) \<Rightarrow> feature_group \<Rightarrow> feature list \<Rightarrow> feature list"
where
  "update_feature_group_schema_on_demand_transformations autofix_name feature_group features =
     (if transformation_functions feature_group = [] then features
      else
        (case collect_on_demand autofix_name (transformation_functions feature_group)
                ([], []) of
           (transformed_features, dropped) \<Rightarrow>
             filter (\<lambda>feat. name feat \<notin> set dropped) features @ transformed_features))"

text \<open>
  The wording of the specification, for comparison with the code: the union of all
  bindings' dropped-feature sets.
\<close>

definition dropped_union :: "transformation_function list \<Rightarrow> string set" where
  "dropped_union tfs =
     (\<Union>tf \<in> set tfs. case dropped_features (hopsworks_udf tf) of None \<Rightarrow> {} | Some d \<Rightarrow> set d)"

definition mk_udf :: "string list \<Rightarrow> string list \<Rightarrow> string list option \<Rightarrow> hopsworks_udf" where
  "mk_udf outs tys dropped =
     \<lparr>function_name = ''f'', transformation_features = [''x''],
      output_column_names = outs, return_types = tys, dropped_features = dropped,
      execution_mode = (\<lambda>online. PANDAS),
      get_udf_python = (\<lambda>args. args), get_udf_pandas = (\<lambda>cols. cols)\<rparr>"

definition mk_tf :: "string list \<Rightarrow> string list \<Rightarrow> string list option \<Rightarrow> transformation_function" where
  "mk_tf outs tys dropped =
     \<lparr>hopsworks_udf = mk_udf outs tys dropped, transformation_type = ON_DEMAND\<rparr>"

definition mk_fg :: "transformation_function list \<Rightarrow> feature_group" where
  "mk_fg tfs =
     \<lparr>is_external = False, fg_id = Some 7, fg_name = ''fg'', feature_store_id = 1,
      fg_features = [], primary_key = [''id''], online_enabled = True, stream = True,
      embedding_index = False, time_travel_format = None,
      transformation_functions = tfs, multi_part_insert = False,
      online_topic_name = ''t'', materialization_job = Job [''defaultArgs'' \<mapsto> ''-op offline'']\<rparr>"

section \<open>Delivery engine (\<^verbatim>\<open>kafka_engine.py\<close>)\<close>

record message =
  msg_topic :: string
  msg_key :: string
  msg_value :: string
  msg_headers :: "(string \<times> string) list"

text \<open>
  A delivery report handed to the acknowledgment callback: the error (or \<^verbatim>\<open>None\<close>) and
  the \<^verbatim>\<open>str\<close> form of the message.
\<close>

type_synonym report = "kafka_error option \<times> string"

text \<open>The state of a \<^verbatim>\<open>tqdm\<close> progress bar.\<close>

record tqdm =
  bar_total :: nat
  bar_n :: nat
  bar_colour :: "string option"
  bar_closed :: bool

text \<open>Calls to external collaborators, recorded in the order they are made.\<close>

datatype effect =
    Produce message
  | Poll nat
  | Flush
  | GetOffsets string bool
  | LastExecution
  | JobRun string pyval
  | JobSchedule string int
  | WaitOnlineIngestion "pyval option"

text \<open>
  A row as a dictionary from field name to value, in column order: what
  \<^verbatim>\<open>itertuples(index=False)\<close> followed by \<^verbatim>\<open>_asdict()\<close>, or \<^verbatim>\<open>iter_rows(named=True)\<close>,
  yields.
\<close>

type_synonym row = "(string \<times> pyval) list"

text \<open>
  The producer resources of \<^verbatim>\<open>init_kafka_resources\<close> apart from the producer itself,
  which is the broker state of the world: the message headers, the encoders of the
  complex features (a dictionary, in its order) and the row encoder.
\<close>

record resources =
  headers :: "(string \<times> string) list"
  feature_writers :: "(string \<times> (pyval \<Rightarrow> string)) list"
  writer :: "row \<Rightarrow> string"

text \<open>
  What the code acts on: the state of the producer and of the broker behind it (of an
  arbitrary type \<^typ>\<open>'b\<close>), the trace of external calls, standard output, issued warnings
  and log lines, the progress bar of the current batch if one was created, the caller's
  option dictionary (which the code mutates), and the producer resources cached on the
  feature group during a multi-part insert.
\<close>

record 'b world =
  broker :: 'b
  trace :: "effect list"
  stdout :: "string list"
  warnings :: "string list"
  logged :: "string list"
  progress_bar :: "tqdm option"
  write_options :: options
  kafka_cache :: "resources option"

text \<open>
  The client library and the broker, as far as the code observes them. \<^verbatim>\<open>produce\<close>
  queues a message or raises; \<^verbatim>\<open>poll\<close> and \<^verbatim>\<open>flush\<close> return the delivery reports they
  serve to the acknowledgment callback; \<^verbatim>\<open>list_topics\<close> gives the partition ids of every
  existing topic and \<^verbatim>\<open>get_watermark_offsets\<close> the (low, high) offsets of a partition.
\<close>

record 'b kafka_env =
  produce :: "'b \<Rightarrow> message \<Rightarrow> exn option \<times> 'b"
  poll :: "'b \<Rightarrow> nat \<Rightarrow> report list \<times> 'b"
  flush :: "'b \<Rightarrow> report list \<times> 'b"
  list_topics :: "'b \<Rightarrow> (string \<times> nat list) list"
  get_watermark_offsets :: "'b \<Rightarrow> string \<Rightarrow> nat \<Rightarrow> int \<times> int"

type_synonym 'b callback = "kafka_error option \<Rightarrow> string \<Rightarrow> 'b world \<Rightarrow> exn option \<times> 'b world"

text \<open>\<^verbatim>\<open>progress_bar.update()\<close>; on \<^verbatim>\<open>None\<close> the attribute access raises.\<close>

definition tqdm_update :: "'b world \<Rightarrow> exn option \<times> 'b world" where
  "tqdm_update w =
     (case progress_bar w of
        None \<Rightarrow> (Some (AttributeError ''update''), w)
      | Some pb \<Rightarrow> (None, w\<lparr>progress_bar := Some (pb\<lparr>bar_n := bar_n pb + 1\<rparr>)\<rparr>))"

text \<open>
  The closure \<^verbatim>\<open>acked\<close> of \<^verbatim>\<open>build_ack_callback_and_optional_progress_bar\<close>. It returns
  \<^verbatim>\<open>Some\<close> exception when it raises. The captured \<^verbatim>\<open>offline_write_options\<close> is the
  caller's dictionary, read when the callback runs.
\<close>

definition acked :: "bool \<Rightarrow> 'b callback" where
  "acked is_multi_part_insert err msg w =
     (case err of
        None \<Rightarrow> if \<not> is_multi_part_insert then tqdm_update w else (None, w)
      | Some e \<Rightarrow>
          (let w1 =
             (if truthy (dict_get (write_options w) ''debug_kafka'' (PyBool False))
              then w\<lparr>stdout := stdout w
                      @ [''Failed to deliver message: '' @ msg @ '': '' @ err_str e]\<rparr>
              else w)
           in
             if code e \<in> set [TOPIC_AUTHORIZATION_FAILED, MSG_TIMED_OUT] then
               (case progress_bar w1 of
                  None \<Rightarrow> (Some (AttributeError ''colour''), w1)
                | Some pb \<Rightarrow>
                    (Some (Raised e),
                     w1\<lparr>progress_bar := Some (pb\<lparr>bar_colour := Some ''RED''\<rparr>)\<rparr>))
             else if \<not> is_multi_part_insert then tqdm_update w1
             else (None, w1)))"

definition build_ack_callback_and_optional_progress_bar ::
  "nat \<Rightarrow> bool \<Rightarrow> 'b world \<Rightarrow> 'b callback \<times> 'b world"
where
  "build_ack_callback_and_optional_progress_bar n_rows is_multi_part_insert w =
     (acked is_multi_part_insert,
      w\<lparr>progress_bar :=
          (if \<not> is_multi_part_insert
           then Some \<lparr>bar_total = n_rows, bar_n = 0, bar_colour = None, bar_closed = False\<rparr>
           else None)\<rparr>)"

text \<open>
  Serving delivery reports: the callback runs once per report, in order, and the first
  exception it raises propagates out of the serving call.
\<close>

fun dispatch :: "'b callback \<Rightarrow> report list \<Rightarrow> 'b world \<Rightarrow> exn option \<times> 'b world" where
  "dispatch cb [] w = (None, w)"
| "dispatch cb ((err, msg) # rs) w =
     (case cb err msg w of
        (Some x, w1) \<Rightarrow> (Some x, w1)
      | (None, w1) \<Rightarrow> dispatch cb rs w1)"

definition producer_produce :: "'b kafka_env \<Rightarrow> message \<Rightarrow> 'b world \<Rightarrow> exn option \<times> 'b world" where
  "producer_produce env msg w =
     (case produce env (broker w) msg of
        (r, b1) \<Rightarrow> (r, w\<lparr>broker := b1, trace := trace w @ [Produce msg]\<rparr>))"

definition producer_poll ::
  "'b kafka_env \<Rightarrow> 'b callback \<Rightarrow> nat \<Rightarrow> 'b world \<Rightarrow> exn option \<times> 'b world"
where
  "producer_poll env cb timeout w =
     (case poll env (broker w) timeout of
        (reports, b1) \<Rightarrow> dispatch cb reports (w\<lparr>broker := b1, trace := trace w @ [Poll timeout]\<rparr>))"

definition producer_flush :: "'b kafka_env \<Rightarrow> 'b callback \<Rightarrow> 'b world \<Rightarrow> exn option \<times> 'b world" where
  "producer_flush env cb w =
     (case flush env (broker w) of
        (reports, b1) \<Rightarrow> dispatch cb reports (w\<lparr>broker := b1, trace := trace w @ [Flush]\<rparr>))"

text \<open>
  \<^verbatim>\<open>kafka_produce\<close>: the \<^verbatim>\<open>while True\<close> loop. Only \<^verbatim>\<open>BufferError\<close> is caught; the loop
  has no bound, so the function is partial: \<^verbatim>\<open>None\<close> means that it never returns.
  A returned \<^verbatim>\<open>Some x\<close> in the first component is a raised exception.
\<close>

partial_function (option) kafka_produce ::
  "'b kafka_env \<Rightarrow> message \<Rightarrow> 'b callback \<Rightarrow> bool \<Rightarrow> 'b world \<Rightarrow> (exn option \<times> 'b world) option"
where
  "kafka_produce env msg acked_cb debug_kafka w =
     (case producer_produce env msg w of
        (None, w1) \<Rightarrow> Some (producer_poll env acked_cb 0 w1)
      | (Some (BufferError e), w1) \<Rightarrow>
          (case producer_poll env acked_cb 1
                  (if debug_kafka then w1\<lparr>stdout := stdout w1 @ [''Caught: '' @ e]\<rparr> else w1) of
             (Some x, w3) \<Rightarrow> Some (Some x, w3)
           | (None, w3) \<Rightarrow> kafka_produce env msg acked_cb debug_kafka w3)
      | (Some x, w1) \<Rightarrow> Some (Some x, w1))"

declare kafka_produce.simps [code]






definition world0 :: "'b \<Rightarrow> tqdm option \<Rightarrow> options \<Rightarrow> 'b world" where
  "world0 b pb opts =
     \<lparr>broker = b, trace = [], stdout = [], warnings = [], logged = [],
      progress_bar = pb, write_options = opts, kafka_cache = None\<rparr>"




section \<open>Python engine (\<^verbatim>\<open>python.py\<close>): publishing a dataframe\<close>

text \<open>
  A dataframe: its library and its columns in order, each a name and the cell values by
  row position. All columns of a dataframe have the same length.
\<close>

datatype df_kind = Pandas | Polars

record dataframe =
  df_kind :: df_kind
  df_columns :: "(string \<times> pyval list) list"

definition columns :: "dataframe \<Rightarrow> string list" where
  "columns df = map fst (df_columns df)"

definition n_rows :: "dataframe \<Rightarrow> nat" where
  "n_rows df = (case df_columns df of [] \<Rightarrow> 0 | (c, vs) # cs \<Rightarrow> length vs)"

text \<open>
  The rows of a pandas dataframe come from \<^verbatim>\<open>itertuples(index=False)\<close>, which builds a
  \<^verbatim>\<open>namedtuple\<close> class over the column names with \<^verbatim>\<open>rename=True\<close>: a name that is not
  an identifier, is a keyword, starts with an underscore or repeats an earlier name is
  replaced by the positional name \<^verbatim>\<open>_\<close>\<open>index\<close>, and \<^verbatim>\<open>_asdict()\<close> has the replaced
  names as keys. Column names are taken to be ASCII strings: \<^verbatim>\<open>str.isidentifier\<close> is
  modelled on the ASCII letters, digits and the underscore; \<^verbatim>\<open>kwlist\<close> is
  \<^verbatim>\<open>keyword.kwlist\<close>.
\<close>

definition is_identifier_start :: "char \<Rightarrow> bool" where
  "is_identifier_start c =
     (c = CHR ''_'' \<or> (CHR ''a'' \<le> c \<and> c \<le> CHR ''z'') \<or> (CHR ''A'' \<le> c \<and> c \<le> CHR ''Z''))"

definition is_identifier_char :: "char \<Rightarrow> bool" where
  "is_identifier_char c = (is_identifier_start c \<or> (CHR ''0'' \<le> c \<and> c \<le> CHR ''9''))"

definition isidentifier :: "string \<Rightarrow> bool" where
  "isidentifier s =
     (case s of [] \<Rightarrow> False | c # cs \<Rightarrow> is_identifier_start c \<and> list_all is_identifier_char cs)"

definition kwlist :: "string list" where
  "kwlist =
     [''False'', ''None'', ''True'', ''and'', ''as'', ''assert'', ''async'', ''await'',
      ''break'', ''class'', ''continue'', ''def'', ''del'', ''elif'', ''else'', ''except'',
      ''finally'', ''for'', ''from'', ''global'', ''if'', ''import'', ''in'', ''is'',
      ''lambda'', ''nonlocal'', ''not'', ''or'', ''pass'', ''raise'', ''return'', ''try'',
      ''while'', ''with'', ''yield'']"

definition iskeyword :: "string \<Rightarrow> bool" where
  "iskeyword s = (s \<in> set kwlist)"

text \<open>
  The renaming loop of \<^verbatim>\<open>namedtuple\<close>:
  \<^verbatim>\<open>for index, name in enumerate(field_names)\<close>, with the set \<^verbatim>\<open>seen\<close> of the names met
  so far.
\<close>

fun rename_fields :: "nat \<Rightarrow> string list \<Rightarrow> string list \<Rightarrow> string list" where
  "rename_fields index seen [] = []"
| "rename_fields index seen (field_name # field_names) =
     (if \<not> isidentifier field_name \<or> iskeyword field_name
         \<or> take 1 field_name = ''_'' \<or> field_name \<in> set seen
      then CHR ''_'' # str_nat index
      else field_name)
       # rename_fields (Suc index) (field_name # seen) field_names"

definition namedtuple_fields :: "string list \<Rightarrow> string list" where
  "namedtuple_fields field_names = rename_fields 0 [] field_names"

text \<open>
  The row iterator of \<^verbatim>\<open>_write_dataframe_kafka\<close>: \<^verbatim>\<open>itertuples(index=False)\<close> with
  \<^verbatim>\<open>_asdict()\<close> for a pandas dataframe, \<^verbatim>\<open>iter_rows(named=True)\<close>, which keeps the column
  names, for a polars one.
\<close>

definition row_fields :: "dataframe \<Rightarrow> string list" where
  "row_fields df =
     (case df_kind df of
        Pandas \<Rightarrow> namedtuple_fields (columns df)
      | Polars \<Rightarrow> columns df)"

definition iter_rows :: "dataframe \<Rightarrow> row list" where
  "iter_rows df =
     map (\<lambda>i. zip (row_fields df) (map (\<lambda>(c, vs). vs ! i) (df_columns df))) [0..<n_rows df]"

text \<open>\<^verbatim>\<open>row[k] = v\<close> on a dictionary: replaces the value in place, or appends the key.\<close>

fun row_set :: "row \<Rightarrow> string \<Rightarrow> pyval \<Rightarrow> row" where
  "row_set [] k v = [(k, v)]"
| "row_set ((c, x) # r) k v = (if c = k then (c, v) # r else (c, x) # row_set r k v)"

text \<open>
  \<^verbatim>\<open>encode_complex_features\<close>: each complex feature of the row is replaced, in place, by
  its encoding. A feature that the row lacks raises \<^verbatim>\<open>KeyError\<close>.
\<close>

fun encode_complex_features :: "(string \<times> (pyval \<Rightarrow> string)) list \<Rightarrow> row \<Rightarrow> exn + row" where
  "encode_complex_features [] r = Inr r"
| "encode_complex_features ((feature_name, wr) # fws) r =
     (case map_of r feature_name of
        None \<Rightarrow> Inl (KeyError feature_name)
      | Some v \<Rightarrow> encode_complex_features fws (row_set r feature_name (PyBytes (wr v))))"

text \<open>
  \<^verbatim>\<open>encode_row\<close>. Its first loop converts arrays, timestamps and missing-value markers
  to plain values; the values of \<^typ>\<open>pyval\<close> are plain already and stay as they are.
  The row is mutated in place, so the caller's row is returned with the encoding.
\<close>

definition encode_row ::
  "(string \<times> (pyval \<Rightarrow> string)) list \<Rightarrow> (row \<Rightarrow> string) \<Rightarrow> row \<Rightarrow> exn + (string \<times> row)"
where
  "encode_row complex_feature_writers wr r =
     (case encode_complex_features complex_feature_writers r of
        Inl x \<Rightarrow> Inl x
      | Inr r1 \<Rightarrow> Inr (wr r1, r1))"

text \<open>
  The key of a row: \<^verbatim>\<open>"".join([str(row[pk]) for pk in sorted(primary_key)])\<close>; the list
  comprehension over the sorted names, raising \<^verbatim>\<open>KeyError\<close> at the first name that the
  row lacks.
\<close>

fun key_parts :: "row \<Rightarrow> string list \<Rightarrow> exn + string list" where
  "key_parts r [] = Inr []"
| "key_parts r (pk # pks) =
     (case map_of r pk of
        None \<Rightarrow> Inl (KeyError pk)
      | Some v \<Rightarrow>
          (case key_parts r pks of
             Inl x \<Rightarrow> Inl x
           | Inr parts \<Rightarrow> Inr (py_str v # parts)))"

definition assemble_key :: "feature_group \<Rightarrow> row \<Rightarrow> exn + string" where
  "assemble_key feature_group r =
     (case key_parts r (sort (primary_key feature_group)) of
        Inl x \<Rightarrow> Inl x
      | Inr parts \<Rightarrow> Inr (concat parts))"

text \<open>The message that the loop body hands to \<^verbatim>\<open>kafka_produce\<close> for a row.\<close>

definition row_message :: "feature_group \<Rightarrow> resources \<Rightarrow> row \<Rightarrow> exn + message" where
  "row_message feature_group res r =
     (case encode_row (feature_writers res) (writer res) r of
        Inl x \<Rightarrow> Inl x
      | Inr (encoded_row, r1) \<Rightarrow>
          (case assemble_key feature_group r1 of
             Inl x \<Rightarrow> Inl x
           | Inr k \<Rightarrow>
               Inr \<lparr>msg_topic = online_topic_name feature_group, msg_key = k,
                    msg_value = encoded_row, msg_headers = headers res\<rparr>))"

text \<open>The loop over the rows. \<^verbatim>\<open>None\<close>: a \<^verbatim>\<open>kafka_produce\<close> never returns.\<close>

fun publish_rows ::
  "'b kafka_env \<Rightarrow> feature_group \<Rightarrow> resources \<Rightarrow> 'b callback \<Rightarrow> row list \<Rightarrow> 'b world
     \<Rightarrow> (exn option \<times> 'b world) option"
where
  "publish_rows env feature_group res acked_cb [] w = Some (None, w)"
| "publish_rows env feature_group res acked_cb (r # rs) w =
     (case row_message feature_group res r of
        Inl x \<Rightarrow> Some (Some x, w)
      | Inr msg \<Rightarrow>
          (case kafka_produce env msg acked_cb
                  (truthy (dict_get (write_options w) ''debug_kafka'' (PyBool False))) w of
             None \<Rightarrow> None
           | Some (Some x, w1) \<Rightarrow> Some (Some x, w1)
           | Some (None, w1) \<Rightarrow> publish_rows env feature_group res acked_cb rs w1))"

text \<open>
  \<^verbatim>\<open>kafka_get_offsets\<close>: the checkpoint string of a topic, from the low or the high
  watermark of each partition, or the empty string when the topic does not exist.
\<close>

definition kafka_get_offsets :: "'b kafka_env \<Rightarrow> string \<Rightarrow> bool \<Rightarrow> 'b world \<Rightarrow> string \<times> 'b world" where
  "kafka_get_offsets env topic_name high w =
     (case map_of (list_topics env (broker w)) topic_name of
        Some partitions \<Rightarrow>
          (topic_name
             @ concat (map (\<lambda>partition_id.
                 '','' @ str_nat partition_id @ '':''
                   @ str_int ((if high then snd else fst)
                        (get_watermark_offsets env (broker w) topic_name partition_id)))
               partitions),
           w\<lparr>trace := trace w @ [GetOffsets topic_name high]\<rparr>)
      | None \<Rightarrow> ([], w\<lparr>trace := trace w @ [GetOffsets topic_name high]\<rparr>))"

text \<open>
  The collaborators of the materialization step: the clock (\<^verbatim>\<open>datetime.now\<close> in UTC,
  as seconds since the epoch), the executions that the job API reports for the
  materialization job, and the resources that \<^verbatim>\<open>_init_kafka_resources\<close> sets up.
  The remote calls on the job (\<^verbatim>\<open>run\<close>, \<^verbatim>\<open>schedule\<close>), on the job API
  (\<^verbatim>\<open>last_execution\<close>) and on the online ingestion (\<^verbatim>\<open>wait_for_completion\<close>) are
  recorded in the trace with their arguments and return.
\<close>

record job_env =
  now :: int
  last_execution :: "nat list"
  init_resources :: "feature_group \<Rightarrow> options \<Rightarrow> nat \<Rightarrow> exn + resources"

text \<open>
  \<^verbatim>\<open>init_kafka_resources\<close>: the caching wrapper around \<^verbatim>\<open>_init_kafka_resources\<close>. In a
  multi-part insert the resources set up by the first call are kept and reused.
\<close>

definition init_kafka_resources ::
  "job_env \<Rightarrow> feature_group \<Rightarrow> nat \<Rightarrow> 'b world \<Rightarrow> (exn + resources) \<times> 'b world"
where
  "init_kafka_resources jenv feature_group num_entries w =
     (if multi_part_insert feature_group \<and> kafka_cache w \<noteq> None
      then (Inr (the (kafka_cache w)), w)
      else
        (case init_resources jenv feature_group (write_options w) num_entries of
           Inl x \<Rightarrow> (Inl x, w)
         | Inr res \<Rightarrow>
             (Inr res,
              if multi_part_insert feature_group then w\<lparr>kafka_cache := Some res\<rparr> else w)))"

text \<open>\<^verbatim>\<open>_start_offline_materialization\<close>.\<close>

definition start_offline_materialization :: "options option \<Rightarrow> pyval" where
  "start_offline_materialization offline_write_options =
     (case offline_write_options of
        Some d \<Rightarrow>
          if d ''start_offline_materialization'' \<noteq> None
            then dict_get d ''start_offline_materialization'' PyNone
          else if d ''start_offline_backfill'' \<noteq> None
            then dict_get d ''start_offline_backfill'' PyNone
          else PyBool True
      | None \<Rightarrow> PyBool True)"

text \<open>The arguments of \<^verbatim>\<open>materialization_job.run\<close>.\<close>

definition job_args :: "feature_group \<Rightarrow> string \<Rightarrow> string" where
  "job_args feature_group initial_check_point =
     (case config (materialization_job feature_group) ''defaultArgs'' of
        None \<Rightarrow> [] | Some a \<Rightarrow> a)
       @ (if initial_check_point \<noteq> []
          then '' -initialCheckPointString '' @ initial_check_point else [])"

text \<open>
  The cron expression for an hour interval:
  \<^verbatim>\<open>f"{now.second} {now.minute} {now.hour}/{offline_backfill_every_hr} ? * * *"\<close>.
\<close>

definition cron_every :: "int \<Rightarrow> string \<Rightarrow> string" where
  "cron_every t every =
     str_nat (nat (t mod 60)) @ '' '' @ str_nat (nat (t div 60 mod 60)) @ '' ''
       @ str_nat (nat (t div 3600 mod 24)) @ ''/'' @ every @ '' ? * * *''"

text \<open>
  The branch for a topic that did not exist (lines 1552 to 1590). It returns
  \<^verbatim>\<open>Some\<close> exception when \<^verbatim>\<open>cron_expression\<close> is read unbound.
\<close>

definition materialize_new_topic ::
  "job_env \<Rightarrow> 'b kafka_env \<Rightarrow> feature_group \<Rightarrow> 'b world \<Rightarrow> exn option \<times> 'b world"
where
  "materialize_new_topic jenv env feature_group w =
     (let w1 = (if truthy (start_offline_materialization (Some (write_options w)))
                then w\<lparr>warnings := warnings w @
                  [''This is the first ingestion after an upgrade or backup/restore, running materialization job even though `start_offline_materialization` was set to `False`.'']\<rparr>
                else w);
          (initial_check_point, w2) =
             kafka_get_offsets env (online_topic_name feature_group) False w1;
          w3 = w2\<lparr>trace := trace w2 @
                 [JobRun (job_args feature_group initial_check_point)
                    (dict_get (write_options w2) ''wait_for_job'' (PyBool False))]\<rparr>;
          offline_backfill_every_hr =
             dict_get (write_options w3) ''offline_backfill_every_hr'' PyNone;
          w4 = w3\<lparr>write_options := (write_options w3)(''offline_backfill_every_hr'' := None)\<rparr>
      in
        if truthy offline_backfill_every_hr then
          (case offline_backfill_every_hr of
             PyStr s \<Rightarrow>
               (None, w4\<lparr>trace := trace w4 @ [JobSchedule s (now jenv + 2)]\<rparr>)
           | PyInt i \<Rightarrow>
               (None, w4\<lparr>trace := trace w4 @
                  [JobSchedule (cron_every (now jenv) (str_int i)) (now jenv + 2)]\<rparr>)
           | PyBool b \<Rightarrow>
               (None, w4\<lparr>trace := trace w4 @
                  [JobSchedule (cron_every (now jenv) (py_str (PyBool b))) (now jenv + 2)]\<rparr>)
           | _ \<Rightarrow> (Some (UnboundLocalError ''cron_expression''), w4))
        else
          (None, w4\<lparr>logged := logged w4 @ [''Materialisation job was not scheduled.'']\<rparr>))"

text \<open>The branch for an existing topic or a multi-part insert (lines 1592 to 1609).\<close>

definition materialize_existing_topic ::
  "job_env \<Rightarrow> feature_group \<Rightarrow> string \<Rightarrow> 'b world \<Rightarrow> 'b world"
where
  "materialize_existing_topic jenv feature_group initial_check_point w =
     (let (initial_check_point1, w1) =
            (if \<not> truthy (dict_get (write_options w) ''skip_offsets'' (PyBool False))
             then (if last_execution jenv \<noteq> [] then [] else initial_check_point,
                   w\<lparr>trace := trace w @ [LastExecution]\<rparr>)
             else (initial_check_point, w))
      in w1\<lparr>trace := trace w1 @
              [JobRun (job_args feature_group initial_check_point1)
                 (dict_get (write_options w1) ''wait_for_job'' (PyBool False))]\<rparr>)"

text \<open>
  The wait for online ingestion and the return value (lines 1611 to 1619). The event
  records the entry \<^verbatim>\<open>online_ingestion_options\<close> of the options as it is found; when it
  is absent (\<^term>\<open>None\<close>) the code passes the default \<^verbatim>\<open>{}\<close>.
\<close>

definition wait_and_return :: "feature_group \<Rightarrow> 'b world \<Rightarrow> (exn + job option) \<times> 'b world" where
  "wait_and_return feature_group w =
     (if online_enabled feature_group
         \<and> truthy (dict_get (write_options w) ''wait_for_online_ingestion'' (PyBool False))
      then (Inr (Some (materialization_job feature_group)),
            w\<lparr>trace := trace w @
                [WaitOnlineIngestion (write_options w ''online_ingestion_options'')]\<rparr>)
      else (Inr (Some (materialization_job feature_group)), w))"

text \<open>Lines 1548 to 1619: what follows the publication of the rows.\<close>

definition materialize ::
  "job_env \<Rightarrow> 'b kafka_env \<Rightarrow> feature_group \<Rightarrow> string \<Rightarrow> 'b world \<Rightarrow> (exn + job option) \<times> 'b world"
where
  "materialize jenv env feature_group initial_check_point w =
     (if is_external feature_group then (Inr None, w)
      else if initial_check_point = [] \<and> \<not> multi_part_insert feature_group then
        (case materialize_new_topic jenv env feature_group w of
           (Some x, w1) \<Rightarrow> (Inl x, w1)
         | (None, w1) \<Rightarrow> wait_and_return feature_group w1)
      else if truthy (start_offline_materialization (Some (write_options w))) then
        wait_and_return feature_group
          (materialize_existing_topic jenv feature_group initial_check_point w)
      else wait_and_return feature_group w)"

text \<open>
  Lines 1494 to 1546: resources, the checkpoint before publishing, the callback, the loop
  over the rows, and the flush. The result is the exception raised or
  \<^verbatim>\<open>initial_check_point\<close>.
\<close>

definition publish ::
  "job_env \<Rightarrow> 'b kafka_env \<Rightarrow> feature_group \<Rightarrow> dataframe \<Rightarrow> 'b world
     \<Rightarrow> ((exn + string) \<times> 'b world) option"
where
  "publish jenv env feature_group df w =
     (case init_kafka_resources jenv feature_group (n_rows df) w of
        (Inl x, w0) \<Rightarrow> Some (Inl x, w0)
      | (Inr res, w0) \<Rightarrow>
          (let (initial_check_point, w1) =
                 (if \<not> multi_part_insert feature_group
                  then kafka_get_offsets env (online_topic_name feature_group) True w0
                  else ([], w0));
               (acked_cb, w2) =
                 build_ack_callback_and_optional_progress_bar (n_rows df)
                   (multi_part_insert feature_group) w1
           in
             case publish_rows env feature_group res acked_cb (iter_rows df) w2 of
               None \<Rightarrow> None
             | Some (Some x, w3) \<Rightarrow> Some (Inl x, w3)
             | Some (None, w3) \<Rightarrow>
                 if \<not> multi_part_insert feature_group then
                   (case producer_flush env acked_cb w3 of
                      (Some x, w4) \<Rightarrow> Some (Inl x, w4)
                    | (None, w4) \<Rightarrow>
                        (case progress_bar w4 of
                           None \<Rightarrow> Some (Inl (AttributeError ''close''), w4)
                         | Some pb \<Rightarrow>
                             Some (Inr initial_check_point,
                                   w4\<lparr>progress_bar := Some (pb\<lparr>bar_closed := True\<rparr>)\<rparr>)))
                 else Some (Inr initial_check_point, w3)))"

text \<open>\<^verbatim>\<open>Engine._write_dataframe_kafka\<close>.\<close>

definition write_dataframe_kafka ::
  "job_env \<Rightarrow> 'b kafka_env \<Rightarrow> feature_group \<Rightarrow> dataframe \<Rightarrow> 'b world
     \<Rightarrow> ((exn + job option) \<times> 'b world) option"
where
  "write_dataframe_kafka jenv env feature_group df w =
     (case publish jenv env feature_group df w of
        None \<Rightarrow> None
      | Some (Inl x, w1) \<Rightarrow> Some (Inl x, w1)
      | Some (Inr initial_check_point, w1) \<Rightarrow>
          Some (materialize jenv env feature_group initial_check_point w1))"

definition res0 :: resources where
  "res0 = \<lparr>headers = [(''projectId'', ''119'')], feature_writers = [],
           writer = (\<lambda>r. concat (map (\<lambda>(c, v). py_str v) r))\<rparr>"

definition jenv0 :: "nat list \<Rightarrow> job_env" where
  "jenv0 execs = \<lparr>now = 1700000000, last_execution = execs,
                  init_resources = (\<lambda>fg opts k. Inr res0)\<rparr>"

text \<open>
  A broker whose state counts the messages it accepted. The topic exists from the start
  if \<^term>\<open>pre\<close> holds, and otherwise as soon as a message was accepted.
\<close>

definition env_topic :: "bool \<Rightarrow> nat kafka_env" where
  "env_topic pre =
     \<lparr>produce = (\<lambda>b m. (None, Suc b)),
      poll = (\<lambda>b t. ([], b)),
      flush = (\<lambda>b. ([], b)),
      list_topics = (\<lambda>b. if pre \<or> b > 0 then [(''t'', [0])] else []),
      get_watermark_offsets = (\<lambda>b t p. (0, 5 + int b))\<rparr>"

definition df_one_row :: "pyval \<Rightarrow> dataframe" where
  "df_one_row v = \<lparr>df_kind = Pandas, df_columns = [(''id'', [v]), (''x'', [PyInt 10])]\<rparr>"


section \<open>Feature group engine (\<^verbatim>\<open>feature_group_engine.py\<close>): \<^verbatim>\<open>save\<close> and \<^verbatim>\<open>insert\<close>\<close>

text \<open>The validation report of the external validation gate.\<close>

record ge_report =
  ingestion_result :: string

text \<open>The calls of \<^verbatim>\<open>save\<close> and \<^verbatim>\<open>insert\<close> that change the platform, in order.\<close>

datatype fge_effect =
    SaveMetadata "feature list"
  | GeValidate
  | DeleteContent
  | SaveDataframe "string option" "string option"
  | Warning string

text \<open>
  The last argument of \<^verbatim>\<open>ge_validate\<close> is \<^verbatim>\<open>ge_type\<close>, which \<^verbatim>\<open>insert\<close> passes as
  \<^verbatim>\<open>False\<close> and \<^verbatim>\<open>save\<close> leaves at its default \<^verbatim>\<open>True\<close>.
  The collaborators of the feature group engine: the execution engine
  (\<^verbatim>\<open>parse_schema_feature_group\<close>, \<^verbatim>\<open>_apply_transformation_function\<close>,
  \<^verbatim>\<open>save_dataframe\<close>), the schema validators, the metadata API, the validation gate and the
  URL helper, and \<^verbatim>\<open>util.autofix_feature_name\<close>, which the constructor of a feature
  applies to its name. The dataframe is of an arbitrary type \<^typ>\<open>'df\<close>. A collaborator
  that can raise returns a sum or an optional exception.
\<close>

record 'df engine_env =
  autofix_name :: "string \<Rightarrow> string"
  parse_schema_feature_group ::
    "'df \<Rightarrow> string option \<Rightarrow> feature list option \<Rightarrow> exn + feature list"
  apply_transformation_function ::
    "transformation_function list \<Rightarrow> 'df \<Rightarrow> options option \<Rightarrow> exn + 'df"
  validate_embedding_feature_type :: "bool \<Rightarrow> feature list \<Rightarrow> exn option"
  validate_schema :: "feature_group \<Rightarrow> 'df \<Rightarrow> feature list \<Rightarrow> exn + feature list"
  save_feature_group_metadata :: "feature_group \<Rightarrow> feature list \<Rightarrow> options \<Rightarrow> exn option"
  ge_validate :: "feature_group \<Rightarrow> 'df \<Rightarrow> options \<Rightarrow> bool \<Rightarrow> ge_report option"
  get_feature_group_url :: "nat \<Rightarrow> nat option \<Rightarrow> string"
  delete_content :: "feature_group \<Rightarrow> exn option"
  save_dataframe ::
    "feature_group \<Rightarrow> 'df \<Rightarrow> string option \<Rightarrow> bool \<Rightarrow> string option \<Rightarrow> options \<Rightarrow> options
       \<Rightarrow> exn + job option"

text \<open>
  Modelled from the spec: \<^verbatim>\<open>_verify_schema_compatibility\<close>, which is defined in the base
  class of the engine, outside the files under verification. The specification: it
  fails with a schema-mismatch error naming every feature present in one list but not
  matched (by name, and by type if types are provided) in the other.
\<close>

definition feature_matches :: "feature \<Rightarrow> feature \<Rightarrow> bool" where
  "feature_matches f g =
     (name f = name g
      \<and> (case (type f, type g) of (Some a, Some b) \<Rightarrow> a = b | _ \<Rightarrow> True))"

definition unmatched_features :: "feature list \<Rightarrow> feature list \<Rightarrow> feature list" where
  "unmatched_features existing incoming =
     filter (\<lambda>f. \<not> list_ex (feature_matches f) incoming) existing
       @ filter (\<lambda>g. \<not> list_ex (feature_matches g) existing) incoming"

definition verify_schema_compatibility :: "feature list \<Rightarrow> feature list \<Rightarrow> exn option" where
  "verify_schema_compatibility existing incoming =
     (if unmatched_features existing incoming = [] then None
      else Some (SchemaMismatchError (map name (unmatched_features existing incoming))))"

text \<open>\<^verbatim>\<open>HudiEngine.HUDI_BULK_INSERT\<close>, a constant of the Hudi engine.\<close>

definition HUDI_BULK_INSERT :: string where
  "HUDI_BULK_INSERT = ''bulk_insert''"

text \<open>
  The online schema validation shared by \<^verbatim>\<open>save\<close> and \<^verbatim>\<open>insert\<close>: the embedding check,
  then, for an online-enabled feature group without embedding index,
  \<^verbatim>\<open>validation_options.get("online_schema_validation", True)\<close> (which raises on
  \<^verbatim>\<open>None\<close>) and \<^verbatim>\<open>DataFrameValidator().validate_schema\<close>.
\<close>

definition validate_features ::
  "'df engine_env \<Rightarrow> feature_group \<Rightarrow> 'df \<Rightarrow> feature list \<Rightarrow> options option
     \<Rightarrow> exn + feature list"
where
  "validate_features env feature_group df dataframe_features validation_options =
     (case validate_embedding_feature_type env (embedding_index feature_group)
             dataframe_features of
        Some x \<Rightarrow> Inl x
      | None \<Rightarrow>
          if online_enabled feature_group \<and> \<not> embedding_index feature_group then
            (case validation_options of
               None \<Rightarrow> Inl (AttributeError ''get'')
             | Some vo \<Rightarrow>
                 if truthy (dict_get vo ''online_schema_validation'' (PyBool True))
                 then validate_schema env feature_group df dataframe_features
                 else Inr dataframe_features)
          else Inr dataframe_features)"

text \<open>
  \<^verbatim>\<open>insert\<close>, lines 164 to 200: the schema of the dataframe, the on-demand
  transformations, and the schema validation. The result is the exception raised, or the
  dataframe and its features as they reach line 202.
\<close>

definition insert_schema ::
  "'df engine_env \<Rightarrow> feature_group \<Rightarrow> 'df \<Rightarrow> options option \<Rightarrow> options option \<Rightarrow> bool
     \<Rightarrow> exn + ('df \<times> feature list)"
where
  "insert_schema env feature_group feature_dataframe validation_options
       transformation_context transform =
     (case parse_schema_feature_group env feature_dataframe
             (time_travel_format feature_group) (Some (fg_features feature_group)) of
        Inl x \<Rightarrow> Inl x
      | Inr dataframe_features \<Rightarrow>
          (case
             (if \<not> is_external feature_group
                 \<and> transformation_functions feature_group \<noteq> [] \<and> transform
              then
                (case apply_transformation_function env
                        (transformation_functions feature_group) feature_dataframe
                        transformation_context of
                   Inl x \<Rightarrow> Inl x
                 | Inr dfa \<Rightarrow>
                     Inr (dfa,
                          update_feature_group_schema_on_demand_transformations
                            (autofix_name env) feature_group dataframe_features))
              else Inr (feature_dataframe, dataframe_features)) of
             Inl x \<Rightarrow> Inl x
           | Inr (dfa, features1) \<Rightarrow>
               (case validate_features env feature_group dfa features1 validation_options of
                  Inl x \<Rightarrow> Inl x
                | Inr features2 \<Rightarrow> Inr (dfa, features2))))"

text \<open>\<^verbatim>\<open>not feature_group._id\<close> holds for \<^verbatim>\<open>None\<close> and for 0.\<close>

definition has_id :: "feature_group \<Rightarrow> bool" where
  "has_id feature_group = (case fg_id feature_group of None \<Rightarrow> False | Some i \<Rightarrow> i \<noteq> 0)"

definition rejected :: "ge_report option \<Rightarrow> bool" where
  "rejected ge_report =
     (case ge_report of None \<Rightarrow> False | Some r \<Rightarrow> ingestion_result r = ''REJECTED'')"

definition options_or_empty :: "options option \<Rightarrow> options" where
  "options_or_empty validation_options =
     (case validation_options of None \<Rightarrow> Map.empty | Some vo \<Rightarrow> vo)"

text \<open>\<^verbatim>\<open>FeatureGroupEngine.insert\<close>. The result is paired with the calls made.\<close>

definition fge_insert ::
  "'df engine_env \<Rightarrow> feature_group \<Rightarrow> 'df \<Rightarrow> bool \<Rightarrow> string option \<Rightarrow> string option
     \<Rightarrow> options \<Rightarrow> options option \<Rightarrow> options option \<Rightarrow> bool
     \<Rightarrow> (exn + (job option \<times> ge_report option)) \<times> fge_effect list"
where
  "fge_insert env feature_group feature_dataframe overwrite operation storage write_opts
       validation_options transformation_context transform =
     (case insert_schema env feature_group feature_dataframe validation_options
             transformation_context transform of
        Inl x \<Rightarrow> (Inl x, [])
      | Inr (dfa, dataframe_features) \<Rightarrow>
          (case
             (if \<not> has_id feature_group
              then (save_feature_group_metadata env feature_group dataframe_features
                      write_opts,
                    [SaveMetadata dataframe_features])
              else (verify_schema_compatibility (fg_features feature_group)
                      dataframe_features, [])) of
             (Some x, effs) \<Rightarrow> (Inl x, effs)
           | (None, effs) \<Rightarrow>
               (let ge_report =
                      ge_validate env feature_group dfa (options_or_empty validation_options)
                        False;
                    effs1 = effs @ [GeValidate]
                in
                  if rejected ge_report then
                    (Inl (DataValidationException
                       (''Data validation failed while validation ingestion policy set to strict, ''
                        @ ''insertion to '' @ fg_name feature_group @ '' was aborted.''
                        @ [CHR 0x0A]
                        @ ''You can check a summary or download your report at ''
                        @ get_feature_group_url env (feature_store_id feature_group)
                            (fg_id feature_group)
                        @ ''.'')),
                     effs1)
                  else if \<not> online_enabled feature_group \<and> storage = Some ''online'' then
                    (Inl (FeatureStoreException
                       ''Online storage is not enabled for this feature group.''), effs1)
                  else
                    (case
                       (if overwrite
                        then (delete_content env feature_group, effs1 @ [DeleteContent])
                        else (None, effs1)) of
                       (Some x, effs2) \<Rightarrow> (Inl x, effs2)
                     | (None, effs2) \<Rightarrow>
                         (let operation1 = (if overwrite then Some ''bulk_insert'' else operation) in
                          case save_dataframe env feature_group dfa operation1
                                 (online_enabled feature_group) storage write_opts
                                 write_opts of
                            Inl x \<Rightarrow> (Inl x, effs2 @ [SaveDataframe operation1 storage])
                          | Inr j \<Rightarrow>
                              (Inr (j, ge_report), effs2 @ [SaveDataframe operation1 storage]))))))"

text \<open>
  \<^verbatim>\<open>save\<close>, lines 82 to 117. The on-demand features are added to the schema first; the
  transformations are applied unless the feature group is external, which gives a warning.
\<close>

definition save_schema ::
  "'df engine_env \<Rightarrow> feature_group \<Rightarrow> 'df \<Rightarrow> options option
     \<Rightarrow> (exn + ('df \<times> feature list)) \<times> fge_effect list"
where
  "save_schema env feature_group feature_dataframe validation_options =
     (case parse_schema_feature_group env feature_dataframe
             (time_travel_format feature_group) None of
        Inl x \<Rightarrow> (Inl x, [])
      | Inr parsed \<Rightarrow>
          (let dataframe_features =
                 update_feature_group_schema_on_demand_transformations (autofix_name env)
                   feature_group parsed
           in
             case
               (if transformation_functions feature_group \<noteq> [] then
                  (if \<not> is_external feature_group then
                     (case apply_transformation_function env
                             (transformation_functions feature_group) feature_dataframe None of
                        Inl x \<Rightarrow> (Inl x, [])
                      | Inr dfa \<Rightarrow> (Inr dfa, []))
                   else
                     (Inr feature_dataframe,
                      [Warning ''On-Demand features were not created because On-Demand Transformations are not supported for External Feature Groups.'']))
                else (Inr feature_dataframe, [])) of
               (Inl x, effs) \<Rightarrow> (Inl x, effs)
             | (Inr dfa, effs) \<Rightarrow>
                 (case validate_features env feature_group dfa dataframe_features
                         validation_options of
                    Inl x \<Rightarrow> (Inl x, effs)
                  | Inr features2 \<Rightarrow> (Inr (dfa, features2), effs))))"

text \<open>\<^verbatim>\<open>FeatureGroupEngine.save\<close>.\<close>

definition fge_save ::
  "'df engine_env \<Rightarrow> feature_group \<Rightarrow> 'df \<Rightarrow> options \<Rightarrow> options option
     \<Rightarrow> (exn + (job option \<times> ge_report option)) \<times> fge_effect list"
where
  "fge_save env feature_group feature_dataframe write_opts validation_options =
     (case save_schema env feature_group feature_dataframe validation_options of
        (Inl x, effs) \<Rightarrow> (Inl x, effs)
      | (Inr (dfa, dataframe_features), effs) \<Rightarrow>
          (case save_feature_group_metadata env feature_group dataframe_features
                  write_opts of
             Some x \<Rightarrow> (Inl x, effs @ [SaveMetadata dataframe_features])
           | None \<Rightarrow>
               (let ge_report =
                      ge_validate env feature_group dfa (options_or_empty validation_options)
                        True;
                    effs1 = effs @ [SaveMetadata dataframe_features, GeValidate]
                in
                  if rejected ge_report then (Inr (None, ge_report), effs1)
                  else
                    (let operation1 = (if time_travel_format feature_group \<in> set [Some ''HUDI'', Some ''DELTA'']
                               then Some HUDI_BULK_INSERT else None) in
                     case save_dataframe env feature_group dfa operation1
                            (online_enabled feature_group) None write_opts write_opts of
                       Inl x \<Rightarrow> (Inl x, effs1 @ [SaveDataframe operation1 None])
                     | Inr j \<Rightarrow> (Inr (j, ge_report), effs1 @ [SaveDataframe operation1 None])))))"

fun is_SaveDataframe :: "fge_effect \<Rightarrow> bool" where
  "is_SaveDataframe (SaveDataframe operation1 st) = True"
| "is_SaveDataframe _ = False"


text \<open>A concrete engine over dataframes that are lists of column names.\<close>

definition env_cols :: "ge_report option \<Rightarrow> string list engine_env" where
  "env_cols report =
     \<lparr>autofix_name = map sanitize_char,
      parse_schema_feature_group =
        (\<lambda>df ttf feats. Inr (map (\<lambda>c. \<lparr>name = c, type = Some ''bigint'', on_demand = False\<rparr>) df)),
      apply_transformation_function = (\<lambda>tfs df ctx. Inr df),
      validate_embedding_feature_type = (\<lambda>idx feats. None),
      validate_schema = (\<lambda>fg df feats. Inr feats),
      save_feature_group_metadata = (\<lambda>fg feats opts. None),
      ge_validate = (\<lambda>fg df opts ge_type. report),
      get_feature_group_url = (\<lambda>fs fgid. ''https://host/p/119/fs/1/fg/7''),
      delete_content = (\<lambda>fg. None),
      save_dataframe = (\<lambda>fg df operation1 online storage o1 o2. Inr (Some (materialization_job fg)))\<rparr>"

definition fg_registered :: feature_group where
  "fg_registered =
     (mk_fg [])\<lparr>fg_features := [\<lparr>name = ''id'', type = Some ''bigint'', on_demand = False\<rparr>]\<rparr>"


section \<open>Python engine (\<^verbatim>\<open>python.py\<close>): applying a transformation function\<close>

text \<open>
  \<^verbatim>\<open>dataframe[name] = values\<close> on a pandas dataframe: an existing column is overwritten
  where it stands, a new one is appended.
\<close>

fun set_column ::
  "(string \<times> pyval list) list \<Rightarrow> string \<Rightarrow> pyval list \<Rightarrow> (string \<times> pyval list) list"
where
  "set_column [] c vs = [(c, vs)]"
| "set_column ((c', x) # cs) c vs =
     (if c' = c then (c', vs) # cs else (c', x) # set_column cs c vs)"

text \<open>
  \<^verbatim>\<open>dataframe[names] = frame\<close>: the columns of the frame are assigned, by position, to the
  names, one after the other; a different number of names and columns raises
  \<^verbatim>\<open>ValueError\<close>.
\<close>

fun assign_columns ::
  "(string \<times> pyval list) list \<Rightarrow> string list \<Rightarrow> pyval list list \<Rightarrow> (string \<times> pyval list) list"
where
  "assign_columns cs (c # names) (vs # cols) = assign_columns (set_column cs c vs) names cols"
| "assign_columns cs _ _ = cs"

definition set_columns ::
  "(string \<times> pyval list) list \<Rightarrow> string list \<Rightarrow> pyval list list
     \<Rightarrow> exn + (string \<times> pyval list) list"
where
  "set_columns cs names cols =
     (if length names \<noteq> length cols then Inl (ValueError ''Columns must be same length as key'')
      else Inr (assign_columns cs names cols))"

text \<open>\<^verbatim>\<open>dataframe[cols]\<close>: the columns of the given names, in the given order.\<close>

definition select_columns ::
  "(string \<times> pyval list) list \<Rightarrow> string list \<Rightarrow> (string \<times> pyval list) list"
where
  "select_columns cs names = map (\<lambda>c. (c, the (map_of cs c))) names"

text \<open>\<^verbatim>\<open>cols.append(cols.pop(cols.index(name)))\<close>, for a name that is in the list.\<close>

definition move_to_end :: "string list \<Rightarrow> string \<Rightarrow> string list" where
  "move_to_end cols c = remove1 c cols @ [c]"

text \<open>
  The columns of the transformation features, in the declared order; a feature that is
  not a column raises.
\<close>

fun lookup_columns ::
  "(string \<Rightarrow> exn) \<Rightarrow> (string \<times> pyval list) list \<Rightarrow> string list \<Rightarrow> exn + pyval list list"
where
  "lookup_columns err cs [] = Inr []"
| "lookup_columns err cs (f # fs) =
     (case map_of cs f of
        None \<Rightarrow> Inl (err f)
      | Some vs \<Rightarrow>
          (case lookup_columns err cs fs of
             Inl x \<Rightarrow> Inl x
           | Inr r \<Rightarrow> Inr (vs # r)))"

text \<open>
  Applying the row-wise callable to every row: the argument tuples by row, the output
  tuples by row, and the output columns (as many as the first output tuple has entries).
\<close>

definition apply_rows :: "hopsworks_udf \<Rightarrow> nat \<Rightarrow> pyval list list \<Rightarrow> pyval list list" where
  "apply_rows udf k arg_cols =
     map (\<lambda>i. get_udf_python udf (map (\<lambda>vs. vs ! i) arg_cols)) [0..<k]"

definition output_columns :: "pyval list list \<Rightarrow> pyval list list" where
  "output_columns outs =
     (case outs of
        [] \<Rightarrow> []
      | out # _ \<Rightarrow> map (\<lambda>j. map (\<lambda>out'. out' ! j) outs) [0..<length out])"

definition first_output :: "pyval list list \<Rightarrow> pyval list" where
  "first_output cols = (case cols of [] \<Rightarrow> [] | vs # _ \<Rightarrow> vs)"

text \<open>
  The single-output branch shared by both functions: the column is assigned, and then,
  the name being among the columns, moved to the end.
\<close>

definition assign_single ::
  "dataframe \<Rightarrow> string list \<Rightarrow> pyval list \<Rightarrow> exn + dataframe"
where
  "assign_single df names vs =
     (case names of
        [] \<Rightarrow> Inl (IndexError ''list index out of range'')
      | c # _ \<Rightarrow>
          (let cs = set_column (df_columns df) c vs in
           if c \<in> set (map fst cs)
           then Inr (df\<lparr>df_columns := select_columns cs (move_to_end (map fst cs) c)\<rparr>)
           else Inr (df\<lparr>df_columns := cs\<rparr>)))"

text \<open>
  The names that polars gives the columns of \<^verbatim>\<open>map_rows\<close>, renamed by
  \<^verbatim>\<open>dict(zip(transformed_features.columns, output_column_names))\<close>.
\<close>

definition polars_names :: "nat \<Rightarrow> string list \<Rightarrow> string list" where
  "polars_names k names =
     map (\<lambda>j. if j < length names then names ! j
               else if k = 1 then ''map'' else ''column_'' @ str_nat j) [0..<k]"

text \<open>
  \<^verbatim>\<open>dataframe[name] = frame\<close>, a dataframe assigned to a single column: the frame must
  have exactly one column, which is assigned.
\<close>

definition set_item_frame ::
  "dataframe \<Rightarrow> string list \<Rightarrow> pyval list list \<Rightarrow> exn + dataframe"
where
  "set_item_frame df names cols =
     (case names of
        [] \<Rightarrow> Inl (IndexError ''list index out of range'')
      | c # _ \<Rightarrow>
          if length cols = 1 then assign_single df names (first_output cols)
          else if c \<in> set (columns df) then Inl (ValueError ''Columns must be same length as key'')
          else if cols = [] then
            Inl (ValueError (''Cannot set a DataFrame without columns to the column '' @ c))
          else
            Inl (ValueError
                   (''Cannot set a DataFrame with multiple columns to the single column '' @ c)))"

text \<open>
  \<^verbatim>\<open>Engine._apply_python_udf\<close>. On a pandas dataframe without rows,
  \<^verbatim>\<open>apply(..., axis=1, result_type="expand")\<close> does not call the function: it returns a
  copy of the dataframe, and it is the columns of that copy that are assigned to the
  output column names.
\<close>

definition apply_python_udf :: "hopsworks_udf \<Rightarrow> dataframe \<Rightarrow> exn + dataframe" where
  "apply_python_udf udf df =
     (case df_kind df of
        Pandas \<Rightarrow>
          if n_rows df = 0 then
            (let outs = map snd (df_columns df) in
             if length (return_types udf) > 1 then
               (case set_columns (df_columns df) (output_column_names udf) outs of
                  Inl x \<Rightarrow> Inl x
                | Inr cs \<Rightarrow> Inr (df\<lparr>df_columns := cs\<rparr>))
             else set_item_frame df (output_column_names udf) outs)
          else
          (case lookup_columns KeyError (df_columns df) (transformation_features udf) of
             Inl x \<Rightarrow> Inl x
           | Inr arg_cols \<Rightarrow>
               (let outs = output_columns (apply_rows udf (n_rows df) arg_cols) in
                if length (return_types udf) > 1 then
                  (case set_columns (df_columns df) (output_column_names udf) outs of
                     Inl x \<Rightarrow> Inl x
                   | Inr cs \<Rightarrow> Inr (df\<lparr>df_columns := cs\<rparr>))
                else assign_single df (output_column_names udf) (first_output outs)))
      | Polars \<Rightarrow>
          (case lookup_columns ValueError (df_columns df) (transformation_features udf) of
             Inl x \<Rightarrow> Inl x
           | Inr arg_cols \<Rightarrow>
               (let outs = output_columns (apply_rows udf (n_rows df) arg_cols) in
                Inr (df\<lparr>df_columns :=
                       assign_columns (df_columns df)
                         (polars_names (length outs) (output_column_names udf)) outs\<rparr>))))"

text \<open>\<^verbatim>\<open>Engine._apply_pandas_udf\<close>.\<close>

definition apply_pandas_udf :: "hopsworks_udf \<Rightarrow> dataframe \<Rightarrow> exn + dataframe" where
  "apply_pandas_udf udf df =
     (case lookup_columns KeyError (df_columns df) (transformation_features udf) of
        Inl x \<Rightarrow> Inl x
      | Inr arg_cols \<Rightarrow>
          (let outs = get_udf_pandas udf arg_cols in
           if length (return_types udf) > 1 then
             (case set_columns (df_columns df) (output_column_names udf) outs of
                Inl x \<Rightarrow> Inl x
              | Inr cs \<Rightarrow> Inr (df\<lparr>df_columns := cs\<rparr>))
           else assign_single df (output_column_names udf) (first_output outs)))"

text \<open>
  The elements of \<^verbatim>\<open>set(transformation_features) - set(dataset.columns)\<close>, without
  repetition.
\<close>

definition missing_features :: "hopsworks_udf \<Rightarrow> dataframe \<Rightarrow> string list" where
  "missing_features udf df =
     filter (\<lambda>f. f \<notin> set (columns df)) (remdups (transformation_features udf))"

text \<open>
  \<^verbatim>\<open>repr\<close> of a string of ASCII characters, and \<^verbatim>\<open>str\<close> of a list of such strings.
\<close>

definition str_repr :: "string \<Rightarrow> string" where
  "str_repr s = bytes_quote s # concat (map (byte_repr (bytes_quote s)) s) @ [bytes_quote s]"

fun join :: "string \<Rightarrow> string list \<Rightarrow> string" where
  "join sep [] = []"
| "join sep [x] = x"
| "join sep (x # y # zs) = x @ sep @ join sep (y # zs)"

definition list_str :: "string list \<Rightarrow> string" where
  "list_str xs = ''['' @ join '', '' (map str_repr xs) @ '']''"

definition missing_features_message :: "transformation_function \<Rightarrow> string list \<Rightarrow> string" where
  "missing_features_message tf missing =
     (if transformation_type tf = ON_DEMAND then
        ''The following feature(s): `'' @ join ''`, '' missing
        @ ''`, specified in the on-demand transformation function '' @ [CHR 0x27]
        @ function_name (hopsworks_udf tf) @ [CHR 0x27]
        @ '' are not present in the dataframe being inserted into the feature group. ''
        @ ''Please verify that the correct feature names are used in the transformation function and that these features exist in the dataframe being inserted.''
      else
        ''The following feature(s): `'' @ join ''`, '' missing
        @ ''`, specified in the model-dependent transformation function '' @ [CHR 0x27]
        @ function_name (hopsworks_udf tf) @ [CHR 0x27]
        @ '' are not present in the feature view. Please verify that the correct features are specified in the transformation function.'')"

text \<open>
  The loop of \<^verbatim>\<open>_apply_transformation_function\<close> over the bindings, threading the
  dataframe and the set \<^verbatim>\<open>dropped_features\<close>. The order in which Python lists the
  elements of a set of strings is not fixed by the language (it varies with the hash seed
  of the process): \<open>set_iter\<close> takes the elements of a set, given without repetition, to
  the list in which the set yields them, and is a parameter. It gives the order of the
  names in the message about missing features and in the \<^verbatim>\<open>KeyError\<close> of \<^verbatim>\<open>drop\<close>.
\<close>

fun apply_transformations ::
  "(string list \<Rightarrow> string list) \<Rightarrow> transformation_function list \<Rightarrow> bool \<Rightarrow> dataframe
     \<Rightarrow> string list \<Rightarrow> exn + (dataframe \<times> string list)"
where
  "apply_transformations set_iter [] online_inference dataset dropped = Inr (dataset, dropped)"
| "apply_transformations set_iter (tf # tfs) online_inference dataset dropped =
     (if missing_features (hopsworks_udf tf) dataset \<noteq> [] then
        Inl (FeatureStoreException
               (missing_features_message tf
                  (set_iter (missing_features (hopsworks_udf tf) dataset))))
      else
        (case
           (if execution_mode (hopsworks_udf tf) online_inference = PANDAS
            then apply_pandas_udf (hopsworks_udf tf) dataset
            else apply_python_udf (hopsworks_udf tf) dataset) of
           Inl x \<Rightarrow> Inl x
         | Inr dataset1 \<Rightarrow>
             apply_transformations set_iter tfs online_inference dataset1
               (case dropped_features (hopsworks_udf tf) of
                  None \<Rightarrow> dropped
                | Some d \<Rightarrow> if d \<noteq> [] then dropped @ d else dropped)))"

text \<open>
  \<^verbatim>\<open>Engine._apply_transformation_function\<close>: a polars dataframe is converted to pandas,
  the bindings are applied in order, and the set of dropped features is removed at the
  end; \<^verbatim>\<open>drop\<close> raises \<^verbatim>\<open>KeyError\<close>, listing the labels that are not columns.
\<close>

definition apply_transformation_function ::
  "(string list \<Rightarrow> string list) \<Rightarrow> bool \<Rightarrow> transformation_function list \<Rightarrow> dataframe \<Rightarrow> bool
     \<Rightarrow> exn + dataframe"
where
  "apply_transformation_function set_iter has_polars tfs dataset online_inference =
     (case apply_transformations set_iter tfs online_inference
             (if has_polars \<and> df_kind dataset = Polars then dataset\<lparr>df_kind := Pandas\<rparr>
              else dataset) [] of
        Inl x \<Rightarrow> Inl x
      | Inr (dataset1, dropped) \<Rightarrow>
          (case filter (\<lambda>d. d \<notin> set (columns dataset1)) (set_iter (remdups dropped)) of
             [] \<Rightarrow>
               Inr (dataset1\<lparr>df_columns :=
                      filter (\<lambda>(c, vs). c \<notin> set dropped) (df_columns dataset1)\<rparr>)
           | d # ds \<Rightarrow> Inl (KeyError (list_str (d # ds) @ '' not found in axis''))))"

text \<open>
  A dataframe with the columns \<^verbatim>\<open>x\<close> and \<^verbatim>\<open>y\<close>, and two bindings on \<^verbatim>\<open>x\<close>: one with the
  single output \<^verbatim>\<open>x\<close>, one with the outputs \<^verbatim>\<open>x\<close> and \<^verbatim>\<open>z\<close>.
\<close>

definition df_xy :: dataframe where
  "df_xy = \<lparr>df_kind = Pandas,
            df_columns = [(''x'', [PyInt 1, PyInt 2]), (''y'', [PyInt 3, PyInt 4])]\<rparr>"

fun py_add :: "int \<Rightarrow> pyval \<Rightarrow> pyval" where
  "py_add k (PyInt i) = PyInt (i + k)"
| "py_add k v = v"

definition udf_overwrite :: "string list \<Rightarrow> string list \<Rightarrow> hopsworks_udf" where
  "udf_overwrite outs tys =
     \<lparr>function_name = ''plus'', transformation_features = [''x''],
      output_column_names = outs, return_types = tys, dropped_features = None,
      execution_mode = (\<lambda>online. PANDAS),
      get_udf_python = (\<lambda>args. map (\<lambda>k. py_add k (hd args)) (map int [10..<10 + length tys])),
      get_udf_pandas = (\<lambda>cols. map (\<lambda>k. map (py_add k) (hd cols)) (map int [10..<10 + length tys]))\<rparr>"


section \<open>Python engine (\<^verbatim>\<open>python.py\<close>): \<^verbatim>\<open>convert_to_default_dataframe\<close>\<close>

text \<open>
  The function is about object identity: it copies the caller's dataframe and changes
  the copy. Dataframes are therefore objects in a store. A dataframe object holds its
  library and, for each column in order, the name and the address of the array with the
  column's data; a shallow copy shares the arrays.
\<close>

datatype dtype = DatetimeTZDtype string | PlDatetime "string option" | OtherDtype string

record series =
  s_dtype :: dtype
  s_values :: "pyval list"

type_synonym addr = nat

record frame =
  f_kind :: df_kind
  f_columns :: "(string \<times> addr) list"

datatype conversion_warning = UpperCaseWarning "string list" | SpaceWarning "string list"

record store =
  frames :: "addr \<rightharpoonup> frame"
  arrays :: "addr \<rightharpoonup> series"
  next_addr :: addr
  issued :: "conversion_warning list"

text \<open>The argument of the function: a dataframe object, a string, or another object.\<close>

datatype py_obj = FrameRef addr | PyString string | PyOther string

text \<open>
  What the function takes from its environment: whether polars is installed,
  \<^verbatim>\<open>util.autofix_feature_name\<close>, and the two time zone conversions of the dataframe
  libraries.
\<close>

record convert_env =
  HAS_POLARS :: bool
  autofix_feature_name :: "string \<Rightarrow> string"
  tz_convert :: "series \<Rightarrow> series"
  replace_time_zone :: "series \<Rightarrow> series"

definition alloc_frame :: "store \<Rightarrow> frame \<Rightarrow> addr \<times> store" where
  "alloc_frame h f =
     (next_addr h, h\<lparr>frames := (frames h)(next_addr h \<mapsto> f), next_addr := Suc (next_addr h)\<rparr>)"

definition alloc_array :: "store \<Rightarrow> series \<Rightarrow> addr \<times> store" where
  "alloc_array h s =
     (next_addr h, h\<lparr>arrays := (arrays h)(next_addr h \<mapsto> s), next_addr := Suc (next_addr h)\<rparr>)"

text \<open>A column of the given name now refers to another array.\<close>

definition rebind :: "(string \<times> addr) list \<Rightarrow> string \<Rightarrow> addr \<Rightarrow> (string \<times> addr) list" where
  "rebind cs col a = map (\<lambda>(c, b). if c = col then (c, a) else (c, b)) cs"

text \<open>\<^verbatim>\<open>any(re.finditer("[A-Z]", col))\<close> and \<^verbatim>\<open>" " in col\<close>.\<close>

definition has_upper :: "string \<Rightarrow> bool" where
  "has_upper col = list_ex (\<lambda>c. CHR ''A'' \<le> c \<and> c \<le> CHR ''Z'') col"

definition has_space :: "string \<Rightarrow> bool" where
  "has_space col = (CHR '' '' \<in> set col)"

text \<open>
  One round of the loop that converts time zones, on the dataframe object that the
  variable \<^verbatim>\<open>dataframe_copy\<close> refers to. In pandas the conversion assigns the column of
  the object; in polars \<^verbatim>\<open>with_columns\<close> makes a new object, to which the variable then
  refers. A pandas column name that occurs twice selects a dataframe, which has no
  \<^verbatim>\<open>dtype\<close>.
\<close>

definition column_series :: "store \<Rightarrow> frame \<Rightarrow> string \<Rightarrow> series option" where
  "column_series h f col =
     (case map_of (f_columns f) col of None \<Rightarrow> None | Some a \<Rightarrow> arrays h a)"

definition ambiguous_column :: "frame \<Rightarrow> string \<Rightarrow> bool" where
  "ambiguous_column f col = (f_kind f = Pandas \<and> count_list (map fst (f_columns f)) col > 1)"

definition tz_step :: "convert_env \<Rightarrow> string \<Rightarrow> addr \<Rightarrow> store \<Rightarrow> (exn + addr) \<times> store" where
  "tz_step env col d h =
     (case frames h d of
        None \<Rightarrow> (Inr d, h)
      | Some f \<Rightarrow>
          if ambiguous_column f col
          then (Inl (AttributeError ''dtype''), h)
          else
            (case column_series h f col of
               None \<Rightarrow> (Inr d, h)
             | Some s \<Rightarrow>
                 (case s_dtype s of
                    DatetimeTZDtype tz \<Rightarrow>
                      (case alloc_array h (tz_convert env s) of
                         (a', h1) \<Rightarrow>
                           (Inr d,
                            h1\<lparr>frames := (frames h1)
                                 (d \<mapsto> f\<lparr>f_columns := rebind (f_columns f) col a'\<rparr>)\<rparr>))
                  | PlDatetime tz \<Rightarrow>
                      if HAS_POLARS env then
                        (case alloc_array h (replace_time_zone env s) of
                           (a', h1) \<Rightarrow>
                             (case alloc_frame h1
                                     (f\<lparr>f_columns := rebind (f_columns f) col a'\<rparr>) of
                                (d', h2) \<Rightarrow> (Inr d', h2)))
                      else (Inr d, h)
                  | OtherDtype t \<Rightarrow> (Inr d, h))))"

fun tz_loop :: "convert_env \<Rightarrow> string list \<Rightarrow> addr \<Rightarrow> store \<Rightarrow> (exn + addr) \<times> store" where
  "tz_loop env [] d h = (Inr d, h)"
| "tz_loop env (col # cols) d h =
     (case tz_step env col d h of
        (Inl x, h1) \<Rightarrow> (Inl x, h1)
      | (Inr d1, h1) \<Rightarrow> tz_loop env cols d1 h1)"

definition not_recognized :: "string \<Rightarrow> exn" where
  "not_recognized t =
     TypeError (''The provided dataframe type is not recognized. Supported types are: pandas dataframe, polars dataframe. ''
                @ ''The provided dataframe has type: '' @ t)"

text \<open>
  \<^verbatim>\<open>Engine.convert_to_default_dataframe\<close>. The result is the exception raised, \<^verbatim>\<open>None\<close>
  for the spine, or the address of the dataframe object returned.
\<close>

definition convert_to_default_dataframe ::
  "convert_env \<Rightarrow> py_obj \<Rightarrow> store \<Rightarrow> (exn + addr option) \<times> store"
where
  "convert_to_default_dataframe env dataframe h =
     (case dataframe of
        FrameRef d \<Rightarrow>
          (case frames h d of
             None \<Rightarrow> (Inl (not_recognized ''<class 'object'>''), h)
           | Some f \<Rightarrow>
               if f_kind f = Pandas \<or> (HAS_POLARS env \<and> f_kind f = Polars) then
                 (let upper_case_features = filter has_upper (map fst (f_columns f));
                      space_features = filter has_space (map fst (f_columns f));
                      (dataframe_copy, h1) = alloc_frame h f;
                      h2 = (if length upper_case_features > 0
                            then h1\<lparr>issued := issued h1 @ [UpperCaseWarning upper_case_features]\<rparr>
                            else h1);
                      h3 = (if length space_features > 0
                            then h2\<lparr>issued := issued h2 @ [SpaceWarning space_features]\<rparr>
                            else h2);
                      names = map (autofix_feature_name env) (map fst (f_columns f))
                  in
                    if f_kind f = Polars \<and> \<not> distinct names
                    then (Inl (DuplicateError ''columns''), h3)
                    else
                      (case tz_loop env names dataframe_copy
                              (h3\<lparr>frames := (frames h3)
                                    (dataframe_copy \<mapsto>
                                       f\<lparr>f_columns := zip names (map snd (f_columns f))\<rparr>)\<rparr>) of
                         (Inl x, h4) \<Rightarrow> (Inl x, h4)
                       | (Inr d', h4) \<Rightarrow> (Inr (Some d'), h4)))
               else (Inl (not_recognized ''<class 'polars.dataframe.frame.DataFrame'>''), h))
      | PyString s \<Rightarrow>
          if s = ''spine'' then (Inr None, h) else (Inl (not_recognized ''<class 'str'>''), h)
      | PyOther t \<Rightarrow> (Inl (not_recognized t), h))"

text \<open>A store in which nothing lives at or beyond the next free address.\<close>

definition store_ok :: "store \<Rightarrow> bool" where
  "store_ok h = (\<forall>a. a \<ge> next_addr h \<longrightarrow> frames h a = None \<and> arrays h a = None)"

definition env_pandas :: convert_env where
  "env_pandas =
     \<lparr>HAS_POLARS = False, autofix_feature_name = map sanitize_char,
      tz_convert = (\<lambda>s. s\<lparr>s_dtype := OtherDtype ''datetime64[ns]''\<rparr>),
      replace_time_zone = (\<lambda>s. s\<lparr>s_dtype := PlDatetime None\<rparr>)\<rparr>"

definition frame_ts :: frame where
  "frame_ts = \<lparr>f_kind = Pandas, f_columns = [(''My Ts'', 1), (''b'', 2)]\<rparr>"

definition store_ts :: store where
  "store_ts =
     \<lparr>frames = [0 \<mapsto> frame_ts],
      arrays = [1 \<mapsto> \<lparr>s_dtype = DatetimeTZDtype ''Europe/Stockholm'', s_values = [PyInt 1]\<rparr>,
                2 \<mapsto> \<lparr>s_dtype = OtherDtype ''int64'', s_values = [PyInt 2]\<rparr>],
      next_addr = 3, issued = []\<rparr>"


section \<open>Theorems\<close>

lemma collect_on_demand_eq:
  "collect_on_demand fx tfs (acc_t, acc_d) =
     (acc_t @ concat (map (on_demand_features_of fx) tfs),
      acc_d @ concat (map (\<lambda>tf. case dropped_features (hopsworks_udf tf) of
                                   None \<Rightarrow> [] | Some d \<Rightarrow> d) tfs))"
  by (induction tfs arbitrary: acc_t acc_d) (auto split: option.splits)

lemma dropped_union_concat:
  "set (concat (map (\<lambda>tf. case dropped_features (hopsworks_udf tf) of
                             None \<Rightarrow> [] | Some d \<Rightarrow> d) tfs)) = dropped_union tfs"
  by (induction tfs) (auto simp: dropped_union_def split: option.splits)

lemma update_schema_eq:
  "update_feature_group_schema_on_demand_transformations fx fg feats =
     filter (\<lambda>feat. name feat \<notin> dropped_union (transformation_functions fg)) feats
       @ concat (map (on_demand_features_of fx) (transformation_functions fg))"
proof (cases "transformation_functions fg = []")
  case True
  then show ?thesis
    by (simp add: update_feature_group_schema_on_demand_transformations_def dropped_union_def)
next
  case False
  obtain t d where c: "collect_on_demand fx (transformation_functions fg) ([], []) = (t, d)"
    by (cases "collect_on_demand fx (transformation_functions fg) ([], [])")
  from c have t: "t = concat (map (on_demand_features_of fx) (transformation_functions fg))"
    and d: "set d = dropped_union (transformation_functions fg)"
    unfolding collect_on_demand_eq
    using dropped_union_concat [of "transformation_functions fg"] by auto
  from False show ?thesis
    unfolding update_feature_group_schema_on_demand_transformations_def c
    by (simp add: t d)
qed

lemma zip_features_names:
  "length ns = length ts \<Longrightarrow>
   map name (map (\<lambda>(n, t). Feature fx n t True) (zip ns ts)) = map fx ns \<and>
   map type (map (\<lambda>(n, t). Feature fx n t True) (zip ns ts)) = map Some ts"
  by (induction ns ts rule: list_induct2) (simp_all add: Feature_def)

lemma on_demand_features_of_names:
  "length (output_column_names (hopsworks_udf tf)) = length (return_types (hopsworks_udf tf)) \<Longrightarrow>
   map name (on_demand_features_of fx tf) = map fx (output_column_names (hopsworks_udf tf)) \<and>
   map type (on_demand_features_of fx tf) = map Some (return_types (hopsworks_udf tf))"
  unfolding on_demand_features_of_def by (rule zip_features_names)

lemma on_demand_features_of_flag: "f \<in> set (on_demand_features_of fx tf) \<Longrightarrow> on_demand f"
  by (auto simp: on_demand_features_of_def Feature_def)

lemma sanitize_chars:
  "sanitize_char CHR ''M'' = CHR ''m''" "sanitize_char CHR ''y'' = CHR ''y''"
  "sanitize_char CHR '' '' = CHR ''_''" "sanitize_char CHR ''O'' = CHR ''o''"
  "sanitize_char CHR ''u'' = CHR ''u''" "sanitize_char CHR ''t'' = CHR ''t''"
  "sanitize_char CHR ''x'' = CHR ''x''" "sanitize_char CHR ''i'' = CHR ''i''"
  "sanitize_char CHR ''d'' = CHR ''d''" "sanitize_char CHR ''e'' = CHR ''e''"
  "sanitize_char CHR ''r'' = CHR ''r''" "sanitize_char CHR ''a'' = CHR ''a''"
  by code_simp+

text \<open>
  Claim C5, as the code has it. The result is the input features without those whose name
  is in the union of the bindings' dropped-feature lists, in their original order,
  followed by the synthetic on-demand features in binding declaration order, one for each
  pair of \<^verbatim>\<open>zip(output_column_names, return_types)\<close>; none of the surviving input
  features has a dropped name; the synthetic features are flagged on-demand; when every
  binding declares as many return types as output columns, they are named by the
  sanitized names of the declared output columns (the constructor of a feature applies
  \<^verbatim>\<open>util.autofix_feature_name\<close>) and typed by the declared return types. The synthetic
  features themselves are not filtered against the dropped names.
\<close>

theorem update_schema_on_demand_result:
  fixes fg :: feature_group and feats :: "feature list" and fx :: "string \<Rightarrow> string"
  defines "tfs \<equiv> transformation_functions fg"
  shows "update_feature_group_schema_on_demand_transformations fx fg feats =
     filter (\<lambda>feat. name feat \<notin> dropped_union tfs) feats
       @ concat (map (\<lambda>tf. map (\<lambda>(output_column_name, return_type).
                                  \<lparr>name = fx output_column_name, type = Some return_type,
                                   on_demand = True\<rparr>)
                               (zip (output_column_names (hopsworks_udf tf))
                                    (return_types (hopsworks_udf tf)))) tfs)
   \<and> (\<forall>f \<in> set (filter (\<lambda>feat. name feat \<notin> dropped_union tfs) feats).
         name f \<notin> dropped_union tfs)
   \<and> (\<forall>f \<in> set (concat (map (on_demand_features_of fx) tfs)). on_demand f)
   \<and> ((\<forall>tf \<in> set tfs. length (output_column_names (hopsworks_udf tf))
                          = length (return_types (hopsworks_udf tf))) \<longrightarrow>
        map name (concat (map (on_demand_features_of fx) tfs))
          = map fx (concat (map (\<lambda>tf. output_column_names (hopsworks_udf tf)) tfs))
        \<and> map type (concat (map (on_demand_features_of fx) tfs))
          = map Some (concat (map (\<lambda>tf. return_types (hopsworks_udf tf)) tfs)))"
proof (intro conjI impI)
  have "on_demand_features_of fx =
          (\<lambda>tf. map (\<lambda>(output_column_name, return_type).
                        \<lparr>name = fx output_column_name, type = Some return_type,
                         on_demand = True\<rparr>)
                     (zip (output_column_names (hopsworks_udf tf))
                          (return_types (hopsworks_udf tf))))"
    by (rule ext) (simp add: on_demand_features_of_def Feature_def)
  then show "update_feature_group_schema_on_demand_transformations fx fg feats =
     filter (\<lambda>feat. name feat \<notin> dropped_union tfs) feats
       @ concat (map (\<lambda>tf. map (\<lambda>(output_column_name, return_type).
                                  \<lparr>name = fx output_column_name, type = Some return_type,
                                   on_demand = True\<rparr>)
                               (zip (output_column_names (hopsworks_udf tf))
                                    (return_types (hopsworks_udf tf)))) tfs)"
    unfolding tfs_def using update_schema_eq [of fx fg feats] by simp
  show "\<forall>f \<in> set (filter (\<lambda>feat. name feat \<notin> dropped_union tfs) feats).
         name f \<notin> dropped_union tfs"
    by simp
  show "\<forall>f \<in> set (concat (map (on_demand_features_of fx) tfs)). on_demand f"
    by (auto dest: on_demand_features_of_flag)
next
  assume len: "\<forall>tf \<in> set tfs. length (output_column_names (hopsworks_udf tf))
                          = length (return_types (hopsworks_udf tf))"
  then show "map name (concat (map (on_demand_features_of fx) tfs))
          = map fx (concat (map (\<lambda>tf. output_column_names (hopsworks_udf tf)) tfs))"
    by (induction tfs) (simp_all add: on_demand_features_of_names)
  from len show "map type (concat (map (on_demand_features_of fx) tfs))
          = map Some (concat (map (\<lambda>tf. return_types (hopsworks_udf tf)) tfs))"
    by (induction tfs) (simp_all add: on_demand_features_of_names)
qed

theorem update_schema_on_demand_result_witness:
  "update_feature_group_schema_on_demand_transformations (map sanitize_char)
     (mk_fg [mk_tf [''My Out''] [''bigint''] (Some [''a''])])
     [\<lparr>name = ''a'', type = Some ''int'', on_demand = False\<rparr>,
      \<lparr>name = ''x'', type = Some ''int'', on_demand = False\<rparr>]
   = [\<lparr>name = ''x'', type = Some ''int'', on_demand = False\<rparr>,
      \<lparr>name = ''my_out'', type = Some ''bigint'', on_demand = True\<rparr>]"
  using update_schema_on_demand_result
    [of "map sanitize_char" "mk_fg [mk_tf [''My Out''] [''bigint''] (Some [''a''])]"
        "[\<lparr>name = ''a'', type = Some ''int'', on_demand = False\<rparr>,
          \<lparr>name = ''x'', type = Some ''int'', on_demand = False\<rparr>]"]
  by (simp add: dropped_union_def on_demand_features_of_def Feature_def mk_tf_def mk_udf_def
      mk_fg_def sanitize_chars)

text \<open>
  Claim C5 as stated fails: a binding that drops the input feature \<^verbatim>\<open>x\<close> and declares
  an output column of the same name yields a schema that contains a feature named
  \<^verbatim>\<open>x\<close>, a name of the dropped union.
\<close>

theorem update_schema_on_demand_counterexample:
  "update_feature_group_schema_on_demand_transformations (map sanitize_char)
     (mk_fg [mk_tf [''x''] [''bigint''] (Some [''x''])])
     [\<lparr>name = ''x'', type = Some ''int'', on_demand = False\<rparr>]
   = [\<lparr>name = ''x'', type = Some ''bigint'', on_demand = True\<rparr>]
   \<and> ''x'' \<in> dropped_union
               (transformation_functions (mk_fg [mk_tf [''x''] [''bigint''] (Some [''x''])]))"
  by (simp add: update_feature_group_schema_on_demand_transformations_def
      dropped_union_def on_demand_features_of_def Feature_def mk_tf_def mk_udf_def mk_fg_def
      sanitize_chars)

subsection \<open>The acknowledgment callback\<close>

text \<open>
  Claim C2. \<^verbatim>\<open>build_ack_callback_and_optional_progress_bar\<close> returns the callback and the
  world in which the progress bar it created lives: a fresh bar over \<open>n_rows\<close> rows when
  the insert is not multi-part, none otherwise. Run in that world, on a delivery report
  with an error, the callback raises if and only if the error code is
  \<^verbatim>\<open>TOPIC_AUTHORIZATION_FAILED\<close> or \<^verbatim>\<open>_MSG_TIMED_OUT\<close>. The same holds later in the
  batch, in any world \<open>v\<close> whose progress bar is the built one after \<open>k\<close> counted reports:
  there the callback raises for the two codes (with the bar turned red; in a multi-part
  insert, which has no bar, the raise is the attribute error of \<^verbatim>\<open>progress_bar.colour\<close>),
  and for every other error it returns normally, and all it does is print the failure
  when \<^verbatim>\<open>debug_kafka\<close> is set and count the report on the bar when there is one.
\<close>

theorem acked_raises_iff_fatal_code:
  fixes w v :: "'b world" and n_rows k :: nat and mp :: bool
    and msg :: string and e :: kafka_error
  defines "built \<equiv> build_ack_callback_and_optional_progress_bar n_rows mp w"
  defines "w0 \<equiv> (v\<lparr>progress_bar :=
                      map_option (\<lambda>pb. pb\<lparr>bar_n := k\<rparr>) (progress_bar (snd built))\<rparr>)"
  defines "w1 \<equiv> (if truthy (dict_get (write_options v) ''debug_kafka'' (PyBool False))
                 then w0\<lparr>stdout := stdout v
                        @ [''Failed to deliver message: '' @ msg @ '': '' @ err_str e]\<rparr>
                 else w0)"
  shows "((\<exists>x. fst (fst built (Some e) msg (snd built)) = Some x)
            = (code e = TOPIC_AUTHORIZATION_FAILED \<or> code e = MSG_TIMED_OUT))
       \<and> ((\<exists>x. fst (fst built (Some e) msg w0) = Some x)
            = (code e = TOPIC_AUTHORIZATION_FAILED \<or> code e = MSG_TIMED_OUT))
       \<and> fst built (Some e) msg w0 =
           (if code e = TOPIC_AUTHORIZATION_FAILED \<or> code e = MSG_TIMED_OUT
            then (if mp then (Some (AttributeError ''colour''), w1)
                  else (Some (Raised e),
                        w1\<lparr>progress_bar :=
                             Some \<lparr>bar_total = n_rows, bar_n = k,
                                   bar_colour = Some ''RED'', bar_closed = False\<rparr>\<rparr>))
            else (None,
                  if mp then w1
                  else w1\<lparr>progress_bar :=
                            Some \<lparr>bar_total = n_rows, bar_n = k + 1,
                                  bar_colour = None, bar_closed = False\<rparr>\<rparr>))"
  unfolding built_def w0_def w1_def
  by (simp add: build_ack_callback_and_optional_progress_bar_def acked_def
      tqdm_update_def Let_def)

subsection \<open>Retrying a row on a full buffer\<close>






subsection \<open>Publishing rows and triggering the materialization job\<close>

















lemma kafka_get_offsets_broker:
  "broker w = broker v \<Longrightarrow> fst (kafka_get_offsets env t h w) = fst (kafka_get_offsets env t h v)"
  by (auto simp: kafka_get_offsets_def split: option.splits)















lemma row_fields_id_x: "namedtuple_fields [''id'', ''x''] = [''id'', ''x'']"
  by code_simp

lemmas run_defs =
  write_dataframe_kafka_def publish_def init_kafka_resources_def kafka_get_offsets_def
  build_ack_callback_and_optional_progress_bar_def iter_rows_def n_rows_def
  row_fields_def columns_def row_fields_id_x
  row_message_def encode_row_def assemble_key_def kafka_produce.simps
  producer_produce_def producer_poll_def producer_flush_def acked_def dict_get_def
  materialize_def materialize_new_topic_def materialize_existing_topic_def
  wait_and_return_def start_offline_materialization_def job_args_def cron_every_def
  jenv0_def env_topic_def mk_fg_def df_one_row_def world0_def res0_def
  str_int_def str_nat.simps digit_char_def Let_def








lemma dict_get_pop_other:
  "k \<noteq> k' \<Longrightarrow> dict_get (m(k := None)) k' d = dict_get m k' d"
  by (simp add: dict_get_def)

text \<open>
  Claim C8. After a non-multi-part insert into a non-external feature group whose topic
  did not exist before publishing (the checkpoint taken before is empty), the low
  watermarks of the topic are read after publishing and the materialization job is run
  with them as \<^verbatim>\<open>-initialCheckPointString\<close> (the argument is left out when that checkpoint
  is empty too). With a backfill option that is absent, \<^verbatim>\<open>None\<close>, a string or an integer,
  a schedule is registered exactly when the option is a non-empty string, which is taken
  as the cron expression, or a non-zero integer \<^term>\<open>i\<close>, which gives the cron expression
  \<^verbatim>\<open>second minute hour/i ? * * *\<close> of the current time; the schedule starts two seconds
  after the current time.
\<close>

theorem new_topic_materialization:
  fixes w :: "'b world"
  assumes pub: "publish jenv env fg df w = Some (Inr [], w1)"
    and mp: "\<not> multi_part_insert fg"
    and ext: "\<not> is_external fg"
  defines "backfill \<equiv> dict_get (write_options w1) ''offline_backfill_every_hr'' PyNone"
  assumes ty: "backfill = PyNone \<or> (\<exists>s. backfill = PyStr s) \<or> (\<exists>i. backfill = PyInt i)"
  defines "low \<equiv> fst (kafka_get_offsets env (online_topic_name fg) False w1)"
  defines "default_args \<equiv>
    (case config (materialization_job fg) ''defaultArgs'' of None \<Rightarrow> [] | Some a \<Rightarrow> a)"
  defines "t \<equiv> now jenv"
  shows "\<exists>w'. write_dataframe_kafka jenv env fg df w
               = Some (Inr (Some (materialization_job fg)), w')
      \<and> trace w' =
          trace w1
          @ [GetOffsets (online_topic_name fg) False,
             JobRun
               (default_args
                  @ (if low \<noteq> [] then '' -initialCheckPointString '' @ low else []))
               (dict_get (write_options w1) ''wait_for_job'' (PyBool False))]
          @ (case backfill of
               PyStr s \<Rightarrow> if s \<noteq> [] then [JobSchedule s (t + 2)] else []
             | PyInt i \<Rightarrow>
                 if i \<noteq> 0
                 then [JobSchedule
                         (str_nat (nat (t mod 60)) @ '' '' @ str_nat (nat (t div 60 mod 60))
                            @ '' '' @ str_nat (nat (t div 3600 mod 24)) @ ''/'' @ str_int i
                            @ '' ? * * *'')
                         (t + 2)]
                 else []
             | _ \<Rightarrow> [])
          @ (if online_enabled fg
                \<and> truthy (dict_get (write_options w1) ''wait_for_online_ingestion'' (PyBool False))
             then [WaitOnlineIngestion
                     (write_options w1 ''online_ingestion_options'')]
             else [])"
proof -
  define sched where "sched =
     (case backfill of
               PyStr s \<Rightarrow> if s \<noteq> [] then [JobSchedule s (t + 2)] else []
             | PyInt i \<Rightarrow>
                 if i \<noteq> 0
                 then [JobSchedule
                         (str_nat (nat (t mod 60)) @ '' '' @ str_nat (nat (t div 60 mod 60))
                            @ '' '' @ str_nat (nat (t div 3600 mod 24)) @ ''/'' @ str_int i
                            @ '' ? * * *'')
                         (t + 2)]
                 else []
             | _ \<Rightarrow> [])"
  obtain x wa where n: "materialize_new_topic jenv env fg w1 = (x, wa)"
    by (cases "materialize_new_topic jenv env fg w1")
  have g: "kafka_get_offsets env (online_topic_name fg) False v
      = (fst (kafka_get_offsets env (online_topic_name fg) False v),
         v\<lparr>trace := trace v @ [GetOffsets (online_topic_name fg) False]\<rparr>)" for v :: "'b world"
    by (simp add: kafka_get_offsets_def split: option.splits)
  define wq where "wq = (if truthy (start_offline_materialization (Some (write_options w1)))
                then w1\<lparr>warnings := warnings w1 @
                  [''This is the first ingestion after an upgrade or backup/restore, running materialization job even though `start_offline_materialization` was set to `False`.'']\<rparr>
                else w1)"
  have q: "trace wq = trace w1" "write_options wq = write_options w1" "broker wq = broker w1"
    by (simp_all add: wq_def)
  have lw: "fst (kafka_get_offsets env (online_topic_name fg) False wq) = low"
    unfolding low_def by (rule kafka_get_offsets_broker) (simp add: q)
  define w4 where "w4 = wq\<lparr>trace := trace w1 @ [GetOffsets (online_topic_name fg) False,
             JobRun (job_args fg low)
               (dict_get (write_options w1) ''wait_for_job'' (PyBool False))],
           write_options := (write_options w1)(''offline_backfill_every_hr'' := None)\<rparr>"
  have unf: "materialize_new_topic jenv env fg w1 =
     (if truthy backfill then
          (case backfill of
             PyStr s \<Rightarrow>
               (None, w4\<lparr>trace := trace w4 @ [JobSchedule s (now jenv + 2)]\<rparr>)
           | PyInt i \<Rightarrow>
               (None, w4\<lparr>trace := trace w4 @
                  [JobSchedule (cron_every (now jenv) (str_int i)) (now jenv + 2)]\<rparr>)
           | PyBool b \<Rightarrow>
               (None, w4\<lparr>trace := trace w4 @
                  [JobSchedule (cron_every (now jenv) (py_str (PyBool b))) (now jenv + 2)]\<rparr>)
           | _ \<Rightarrow> (Some (UnboundLocalError ''cron_expression''), w4))
        else
          (None, w4\<lparr>logged := logged w4 @ [''Materialisation job was not scheduled.'']\<rparr>))"
    unfolding materialize_new_topic_def wq_def [symmetric]
    by (subst g) (simp add: Let_def lw q w4_def backfill_def cong: pyval.case_cong if_cong)
  have t4: "trace w4 = trace w1 @ [GetOffsets (online_topic_name fg) False,
             JobRun (default_args
                  @ (if low \<noteq> [] then '' -initialCheckPointString '' @ low else []))
               (dict_get (write_options w1) ''wait_for_job'' (PyBool False))]"
    and o4: "write_options w4 = (write_options w1)(''offline_backfill_every_hr'' := None)"
    by (simp_all add: w4_def job_args_def default_args_def)
  from ty consider (none) "backfill = PyNone" | (str) s where "backfill = PyStr s"
    | (int) i where "backfill = PyInt i" by blast
  then have "x = None \<and> trace wa = trace w4 @ sched \<and> write_options wa = write_options w4"
  proof cases
    case none
    with n unf show ?thesis by (auto simp: sched_def)
  next
    case str
    with n unf show ?thesis by (cases "s = []") (auto simp: sched_def t_def)
  next
    case int
    with n unf show ?thesis by (cases "i = 0") (auto simp: sched_def t_def cron_every_def)
  qed
  then have x: "x = None"
    and ta: "trace wa = trace w1
          @ [GetOffsets (online_topic_name fg) False,
             JobRun
               (default_args
                  @ (if low \<noteq> [] then '' -initialCheckPointString '' @ low else []))
               (dict_get (write_options w1) ''wait_for_job'' (PyBool False))]
          @ sched"
    and oa: "write_options wa = (write_options w1)(''offline_backfill_every_hr'' := None)"
    unfolding t4 o4 by simp_all
  have m: "materialize jenv env fg [] w1 = wait_and_return fg wa"
    using mp ext n x by (simp add: materialize_def)
  have run: "write_dataframe_kafka jenv env fg df w = Some (wait_and_return fg wa)"
    unfolding write_dataframe_kafka_def pub by (simp add: m)
  have "\<exists>w'. wait_and_return fg wa = (Inr (Some (materialization_job fg)), w')
      \<and> trace w' =
          trace wa
          @ (if online_enabled fg
                \<and> truthy (dict_get (write_options w1) ''wait_for_online_ingestion'' (PyBool False))
             then [WaitOnlineIngestion
                     (write_options w1 ''online_ingestion_options'')]
             else [])"
    by (simp add: wait_and_return_def oa dict_get_pop_other)
  then obtain w' where
    "wait_and_return fg wa = (Inr (Some (materialization_job fg)), w')"
    and "trace w' =
          trace wa
          @ (if online_enabled fg
                \<and> truthy (dict_get (write_options w1) ''wait_for_online_ingestion'' (PyBool False))
             then [WaitOnlineIngestion
                     (write_options w1 ''online_ingestion_options'')]
             else [])"
    by blast
  with run show ?thesis unfolding ta sched_def by (intro exI [of _ w']) simp
qed


lemma publish_new_run:
  "publish (jenv0 []) (env_topic False) (mk_fg []) (df_one_row (PyInt 1))
     (world0 0 None [''offline_backfill_every_hr'' \<mapsto> PyInt 6])
   = Some (Inr [],
       \<lparr>broker = 1,
        trace = [GetOffsets ''t'' True,
                 Produce \<lparr>msg_topic = ''t'', msg_key = ''1'', msg_value = ''110'',
                          msg_headers = [(''projectId'', ''119'')]\<rparr>,
                 Poll 0, Flush],
        stdout = [], warnings = [], logged = [],
        progress_bar = Some \<lparr>bar_total = 1, bar_n = 0, bar_colour = None, bar_closed = True\<rparr>,
        write_options = [''offline_backfill_every_hr'' \<mapsto> PyInt 6], kafka_cache = None\<rparr>)"
  by (simp add: run_defs)

theorem new_topic_materialization_witness:
  "\<exists>w'. write_dataframe_kafka (jenv0 []) (env_topic False) (mk_fg []) (df_one_row (PyInt 1))
           (world0 0 None [''offline_backfill_every_hr'' \<mapsto> PyInt 6])
         = Some (Inr (Some (materialization_job (mk_fg []))), w')
      \<and> trace w' =
          [GetOffsets ''t'' True,
           Produce \<lparr>msg_topic = ''t'', msg_key = ''1'', msg_value = ''110'',
                    msg_headers = [(''projectId'', ''119'')]\<rparr>,
           Poll 0, Flush, GetOffsets ''t'' False,
           JobRun ''-op offline -initialCheckPointString t,0:0'' (PyBool False),
           JobSchedule ''20 13 22/6 ? * * *'' 1700000002]"
  using new_topic_materialization [OF publish_new_run]
  by (auto simp: dict_get_def mk_fg_def jenv0_def kafka_get_offsets_def env_topic_def
      str_int_def str_nat.simps digit_char_def)




text \<open>
  A pandas column whose name is a keyword reaches the loop body under its positional
  name, so that a primary key of that name is not found in the row.
\<close>

lemma row_fields_class: "namedtuple_fields [''class''] = [''_0'']"
  by code_simp

lemma keyword_primary_key_raises:
  "map_option fst
     (write_dataframe_kafka (jenv0 []) (env_topic True) ((mk_fg [])\<lparr>primary_key := [''class'']\<rparr>)
        \<lparr>df_kind = Pandas, df_columns = [(''class'', [PyInt 1])]\<rparr> (world0 0 None Map.empty))
   = Some (Inl (KeyError ''class''))"
  by (simp add: write_dataframe_kafka_def publish_def init_kafka_resources_def
      kafka_get_offsets_def build_ack_callback_and_optional_progress_bar_def iter_rows_def
      n_rows_def row_fields_def columns_def row_fields_class row_message_def encode_row_def
      assemble_key_def jenv0_def env_topic_def mk_fg_def world0_def res0_def Let_def)

subsection \<open>Schema check and validation gate of \<^verbatim>\<open>insert\<close> and \<^verbatim>\<open>save\<close>\<close>

lemma save_schema_effects:
  "save_schema env fg df vo = (r, effs) \<Longrightarrow> \<not> list_ex is_SaveDataframe effs"
  by (auto simp: save_schema_def Let_def split: sum.splits if_splits prod.splits)

text \<open>
  Claim C4. When the feature group has an id and the features of the incoming dataframe,
  as they reach the compatibility check, are incompatible with the declared features
  (some feature of one list has no match by name, and by type where both give one, in
  the other), \<^verbatim>\<open>insert\<close> raises the schema-mismatch error that names the unmatched
  features, and it has made no call by then: no metadata is saved, no content deleted and
  \<^verbatim>\<open>save_dataframe\<close> is not invoked.
\<close>

theorem insert_schema_mismatch:
  assumes "insert_schema env fg df vo tc tr = Inr (dfa, feats)"
    and "has_id fg"
    and "unmatched_features (fg_features fg) feats \<noteq> []"
  shows "fge_insert env fg df ow operation storage wo vo tc tr
         = (Inl (SchemaMismatchError (map name (unmatched_features (fg_features fg) feats))), [])"
  using assms by (simp add: fge_insert_def verify_schema_compatibility_def)

theorem insert_schema_mismatch_witness:
  "fge_insert (env_cols None) fg_registered [''id'', ''extra''] False None None Map.empty
     (Some Map.empty) None True
   = (Inl (SchemaMismatchError [''extra'']), [])"
  using insert_schema_mismatch
    [of "env_cols None" fg_registered "[''id'', ''extra'']" "Some Map.empty" None True
        "[''id'', ''extra'']"
        "[\<lparr>name = ''id'', type = Some ''bigint'', on_demand = False\<rparr>,
          \<lparr>name = ''extra'', type = Some ''bigint'', on_demand = False\<rparr>]"
        False None None Map.empty]
  by (simp add: insert_schema_def validate_features_def env_cols_def fg_registered_def
      mk_fg_def has_id_def unmatched_features_def feature_matches_def dict_get_def)

text \<open>
  Claim C7. When the validation gate, reached by \<^verbatim>\<open>insert\<close>, reports the batch
  \<^verbatim>\<open>REJECTED\<close>, \<^verbatim>\<open>insert\<close> raises a data-validation exception whose message gives the URL
  of the feature group, where the report is found. When the validation gate, reached by
  \<^verbatim>\<open>save\<close>, reports the batch \<^verbatim>\<open>REJECTED\<close>, \<^verbatim>\<open>save\<close> returns \<^verbatim>\<open>None\<close> for the job together
  with the report. Neither has called \<^verbatim>\<open>save_dataframe\<close>. The two halves are
  independent: \<^verbatim>\<open>insert\<close> parses the schema against the declared features and calls the
  gate with \<^verbatim>\<open>ge_type=False\<close>, \<^verbatim>\<open>save\<close> parses it without them and leaves \<^verbatim>\<open>ge_type\<close> at
  its default.
\<close>

theorem rejected_validation:
  "(insert_schema env fg df vo tc tr = Inr (dfa, feats)
      \<and> (if has_id fg then verify_schema_compatibility (fg_features fg) feats
          else save_feature_group_metadata env fg feats wo) = None
      \<and> rejected (ge_validate env fg dfa (options_or_empty vo) False)
    \<longrightarrow> fge_insert env fg df ow operation storage wo vo tc tr
         = (Inl (DataValidationException
              (''Data validation failed while validation ingestion policy set to strict, ''
               @ ''insertion to '' @ fg_name fg @ '' was aborted.'' @ [CHR 0x0A]
               @ ''You can check a summary or download your report at ''
               @ get_feature_group_url env (feature_store_id fg) (fg_id fg) @ ''.'')),
            (if has_id fg then [] else [SaveMetadata feats]) @ [GeValidate])
       \<and> \<not> list_ex is_SaveDataframe
             (snd (fge_insert env fg df ow operation storage wo vo tc tr)))
   \<and> (save_schema env fg df vo = (Inr (dfb, featsb), effs)
      \<and> save_feature_group_metadata env fg featsb wo = None
      \<and> rejected (ge_validate env fg dfb (options_or_empty vo) True)
    \<longrightarrow> fge_save env fg df wo vo
         = (Inr (None, ge_validate env fg dfb (options_or_empty vo) True),
            effs @ [SaveMetadata featsb, GeValidate])
       \<and> \<not> list_ex is_SaveDataframe (snd (fge_save env fg df wo vo)))"
proof (intro conjI impI; elim conjE)
  assume a: "insert_schema env fg df vo tc tr = Inr (dfa, feats)"
    "(if has_id fg then verify_schema_compatibility (fg_features fg) feats
      else save_feature_group_metadata env fg feats wo) = None"
    "rejected (ge_validate env fg dfa (options_or_empty vo) False)"
  then show i: "fge_insert env fg df ow operation storage wo vo tc tr
         = (Inl (DataValidationException
              (''Data validation failed while validation ingestion policy set to strict, ''
               @ ''insertion to '' @ fg_name fg @ '' was aborted.'' @ [CHR 0x0A]
               @ ''You can check a summary or download your report at ''
               @ get_feature_group_url env (feature_store_id fg) (fg_id fg) @ ''.'')),
            (if has_id fg then [] else [SaveMetadata feats]) @ [GeValidate])"
    by (cases "has_id fg") (simp_all add: fge_insert_def Let_def)
  show "\<not> list_ex is_SaveDataframe (snd (fge_insert env fg df ow operation storage wo vo tc tr))"
    unfolding i by simp
next
  assume a: "save_schema env fg df vo = (Inr (dfb, featsb), effs)"
    "save_feature_group_metadata env fg featsb wo = None"
    "rejected (ge_validate env fg dfb (options_or_empty vo) True)"
  then show s: "fge_save env fg df wo vo
         = (Inr (None, ge_validate env fg dfb (options_or_empty vo) True),
            effs @ [SaveMetadata featsb, GeValidate])"
    by (simp add: fge_save_def Let_def)
  from save_schema_effects [OF a(1)]
  show "\<not> list_ex is_SaveDataframe (snd (fge_save env fg df wo vo))"
    unfolding s by simp
qed

theorem rejected_validation_witness:
  "fge_insert (env_cols (Some \<lparr>ingestion_result = ''REJECTED''\<rparr>)) fg_registered [''id'']
     False None None Map.empty (Some Map.empty) None True
   = (Inl (DataValidationException
        (''Data validation failed while validation ingestion policy set to strict, ''
         @ ''insertion to fg was aborted.'' @ [CHR 0x0A]
         @ ''You can check a summary or download your report at ''
         @ ''https://host/p/119/fs/1/fg/7.'')),
      [GeValidate])
   \<and> fge_save (env_cols (Some \<lparr>ingestion_result = ''REJECTED''\<rparr>)) fg_registered [''id'']
       Map.empty (Some Map.empty)
     = (Inr (None, Some \<lparr>ingestion_result = ''REJECTED''\<rparr>),
        [SaveMetadata [\<lparr>name = ''id'', type = Some ''bigint'', on_demand = False\<rparr>],
         GeValidate])"
  using rejected_validation
    [where env = "env_cols (Some \<lparr>ingestion_result = ''REJECTED''\<rparr>)"
       and fg = fg_registered and df = "[''id'']" and vo = "Some Map.empty" and tc = None
       and tr = True and dfa = "[''id'']"
       and feats = "[\<lparr>name = ''id'', type = Some ''bigint'', on_demand = False\<rparr>]"
       and wo = Map.empty and dfb = "[''id'']"
       and featsb = "[\<lparr>name = ''id'', type = Some ''bigint'', on_demand = False\<rparr>]"
       and effs = "[]" and ow = False and operation = None and storage = None]
  by (simp add: insert_schema_def save_schema_def validate_features_def env_cols_def
      fg_registered_def mk_fg_def has_id_def unmatched_features_def feature_matches_def
      dict_get_def verify_schema_compatibility_def rejected_def
      update_feature_group_schema_on_demand_transformations_def)

subsection \<open>Output columns of a transformation\<close>

lemma set_column_names:
  "map fst (set_column cs c vs) = (if c \<in> set (map fst cs) then map fst cs else map fst cs @ [c])"
  by (induction cs) force+

lemma map_of_set_column: "map_of (set_column cs c vs) = (map_of cs)(c \<mapsto> vs)"
  by (induction cs) (auto simp: fun_eq_iff)

lemma select_columns_names: "map fst (select_columns cs names) = names"
  by (simp add: select_columns_def comp_def)

lemma map_of_select_columns:
  "map_of (select_columns cs names) c = (if c \<in> set names then Some (the (map_of cs c)) else None)"
  by (induction names) (auto simp: select_columns_def)

lemma move_to_end_keeps_others: "filter (\<lambda>c'. c' \<noteq> c) (remove1 c cols @ [c]) = filter (\<lambda>c'. c' \<noteq> c) cols"
  by (induction cols) auto

text \<open>
  The single-output branch does what claim C6 says: the output column is the last column,
  it holds the output values, every other column keeps its values, the other columns keep
  their order, and no name is duplicated if none was.
\<close>

lemma assign_single_moves_last:
  assumes "names = c # others"
  shows "\<exists>df'. assign_single df names vs = Inr df'
          \<and> columns df' = remove1 c (columns df) @ [c]
          \<and> last (columns df') = c
          \<and> map_of (df_columns df') c = Some vs
          \<and> (\<forall>c' \<in> set (columns df). c' \<noteq> c \<longrightarrow>
                map_of (df_columns df') c' = map_of (df_columns df) c')
          \<and> filter (\<lambda>c'. c' \<noteq> c) (columns df') = filter (\<lambda>c'. c' \<noteq> c) (columns df)
          \<and> (distinct (columns df) \<longrightarrow> distinct (columns df'))"
proof -
  define cs where "cs = set_column (df_columns df) c vs"
  have mem: "c \<in> set (map fst cs)" unfolding cs_def set_column_names by simp
  define df' where "df' = df\<lparr>df_columns := select_columns cs (move_to_end (map fst cs) c)\<rparr>"
  have r: "assign_single df names vs = Inr df'"
    using mem by (simp add: assign_single_def assms Let_def df'_def flip: cs_def)
  have n: "remove1 c (map fst cs) = remove1 c (map fst (df_columns df))"
    unfolding cs_def set_column_names by (simp add: remove1_append remove1_idem)
  have cols: "columns df' = remove1 c (columns df) @ [c]"
    by (simp add: df'_def columns_def select_columns_names move_to_end_def n)
  have val: "map_of (df_columns df') c = Some vs"
    by (simp add: df'_def map_of_select_columns move_to_end_def cs_def map_of_set_column)
  have others: "\<forall>c' \<in> set (columns df). c' \<noteq> c \<longrightarrow>
                map_of (df_columns df') c' = map_of (df_columns df) c'"
  proof (intro ballI impI)
    fix c' assume c': "c' \<in> set (columns df)" and ne: "c' \<noteq> c"
    then have "c' \<in> set (remove1 c (map fst cs))"
      unfolding n by (simp add: columns_def)
    moreover from c' obtain v where "map_of (df_columns df) c' = Some v"
      by (cases "map_of (df_columns df) c'")
         (auto simp: columns_def map_of_eq_None_iff)
    ultimately show "map_of (df_columns df') c' = map_of (df_columns df) c'"
      using ne by (simp add: df'_def map_of_select_columns move_to_end_def cs_def
          map_of_set_column)
  qed
  have "filter (\<lambda>c'. c' \<noteq> c) (columns df') = filter (\<lambda>c'. c' \<noteq> c) (columns df)"
    unfolding cols by (rule move_to_end_keeps_others)
  moreover have "distinct (columns df) \<longrightarrow> distinct (columns df')"
    unfolding cols by auto
  ultimately show ?thesis using r cols val others by auto
qed

lemma apply_pandas_udf_single_output:
  assumes "length (return_types udf) \<le> 1"
    and "output_column_names udf = c # others"
    and "lookup_columns KeyError (df_columns df) (transformation_features udf) = Inr arg_cols"
  shows "\<exists>df'. apply_pandas_udf udf df = Inr df'
          \<and> columns df' = remove1 c (columns df) @ [c]
          \<and> last (columns df') = c
          \<and> map_of (df_columns df') c = Some (first_output (get_udf_pandas udf arg_cols))
          \<and> (\<forall>c' \<in> set (columns df). c' \<noteq> c \<longrightarrow>
                map_of (df_columns df') c' = map_of (df_columns df) c')
          \<and> filter (\<lambda>c'. c' \<noteq> c) (columns df') = filter (\<lambda>c'. c' \<noteq> c) (columns df)
          \<and> (distinct (columns df) \<longrightarrow> distinct (columns df'))"
proof -
  from assms(1,3) have "apply_pandas_udf udf df
      = assign_single df (output_column_names udf) (first_output (get_udf_pandas udf arg_cols))"
    by (simp add: apply_pandas_udf_def Let_def)
  with assign_single_moves_last [OF assms(2), of df "first_output (get_udf_pandas udf arg_cols)"]
  show ?thesis by simp
qed

lemma apply_python_udf_single_output:
  assumes "length (return_types udf) \<le> 1"
    and "output_column_names udf = c # others"
    and "lookup_columns KeyError (df_columns df) (transformation_features udf) = Inr arg_cols"
    and "df_kind df = Pandas" and "n_rows df \<noteq> 0"
  shows "\<exists>df'. apply_python_udf udf df = Inr df'
          \<and> columns df' = remove1 c (columns df) @ [c]
          \<and> last (columns df') = c
          \<and> map_of (df_columns df') c
              = Some (first_output (output_columns (apply_rows udf (n_rows df) arg_cols)))
          \<and> (\<forall>c' \<in> set (columns df). c' \<noteq> c \<longrightarrow>
                map_of (df_columns df') c' = map_of (df_columns df) c')
          \<and> filter (\<lambda>c'. c' \<noteq> c) (columns df') = filter (\<lambda>c'. c' \<noteq> c) (columns df)
          \<and> (distinct (columns df) \<longrightarrow> distinct (columns df'))"
proof -
  from assms(1,3,4,5) have "apply_python_udf udf df
      = assign_single df (output_column_names udf)
          (first_output (output_columns (apply_rows udf (n_rows df) arg_cols)))"
    by (simp add: apply_python_udf_def Let_def)
  with assign_single_moves_last [OF assms(2), of df
      "first_output (output_columns (apply_rows udf (n_rows df) arg_cols))"]
  show ?thesis by simp
qed

lemmas udf_defs =
  apply_pandas_udf_def apply_python_udf_def set_columns_def assign_single_def
  select_columns_def move_to_end_def apply_rows_def output_columns_def first_output_def
  polars_names_def n_rows_def columns_def df_xy_def udf_overwrite_def Let_def

text \<open>
  Claim C6 at a binding with two outputs, of which the first has the name of the
  existing column \<^verbatim>\<open>x\<close>. Both functions overwrite \<^verbatim>\<open>x\<close> where it stands, before the
  untouched column \<^verbatim>\<open>y\<close>: the overwritten column is not moved to the end, and
  \<^verbatim>\<open>_apply_transformation_function\<close> returns the dataframe so. The same binding with the
  single output \<^verbatim>\<open>x\<close> moves it behind \<^verbatim>\<open>y\<close>.
\<close>

theorem multi_output_overwrite_not_moved:
  "apply_pandas_udf (udf_overwrite [''x'', ''z''] [''bigint'', ''bigint'']) df_xy
   = Inr \<lparr>df_kind = Pandas,
          df_columns = [(''x'', [PyInt 11, PyInt 12]), (''y'', [PyInt 3, PyInt 4]),
                        (''z'', [PyInt 12, PyInt 13])]\<rparr>
   \<and> apply_python_udf (udf_overwrite [''x'', ''z''] [''bigint'', ''bigint'']) df_xy
   = Inr \<lparr>df_kind = Pandas,
          df_columns = [(''x'', [PyInt 11, PyInt 12]), (''y'', [PyInt 3, PyInt 4]),
                        (''z'', [PyInt 12, PyInt 13])]\<rparr>
   \<and> apply_transformation_function (\<lambda>names. names) True
       [\<lparr>hopsworks_udf = udf_overwrite [''x'', ''z''] [''bigint'', ''bigint''],
         transformation_type = ON_DEMAND\<rparr>] df_xy False
   = Inr \<lparr>df_kind = Pandas,
          df_columns = [(''x'', [PyInt 11, PyInt 12]), (''y'', [PyInt 3, PyInt 4]),
                        (''z'', [PyInt 12, PyInt 13])]\<rparr>
   \<and> apply_pandas_udf (udf_overwrite [''x''] [''bigint'']) df_xy
   = Inr \<lparr>df_kind = Pandas,
          df_columns = [(''y'', [PyInt 3, PyInt 4]), (''x'', [PyInt 11, PyInt 12])]\<rparr>"
  by (simp add: udf_defs upt_rec_numeral apply_transformation_function_def
      missing_features_def)

text \<open>
  On a pandas dataframe without rows \<^verbatim>\<open>_apply_python_udf\<close> assigns the columns of the
  dataframe itself: with the columns \<^verbatim>\<open>x\<close> and \<^verbatim>\<open>y\<close>, the binding with the single output
  \<^verbatim>\<open>x\<close> raises, and the binding with the outputs \<^verbatim>\<open>x\<close> and \<^verbatim>\<open>z\<close> adds the column \<^verbatim>\<open>z\<close>.
\<close>

lemma apply_python_udf_without_rows:
  "apply_python_udf (udf_overwrite [''x''] [''bigint''])
     \<lparr>df_kind = Pandas, df_columns = [(''x'', []), (''y'', [])]\<rparr>
   = Inl (ValueError ''Columns must be same length as key'')
   \<and> apply_python_udf (udf_overwrite [''x'', ''z''] [''bigint'', ''bigint''])
       \<lparr>df_kind = Pandas, df_columns = [(''x'', []), (''y'', [])]\<rparr>
     = Inr \<lparr>df_kind = Pandas, df_columns = [(''x'', []), (''y'', []), (''z'', [])]\<rparr>"
  by (simp add: udf_defs set_item_frame_def)

subsection \<open>The caller's dataframe after \<^verbatim>\<open>convert_to_default_dataframe\<close>\<close>

lemma rebind_names: "map fst (rebind cs col a) = map fst cs"
  by (induction cs) (auto simp: rebind_def)

lemma tz_step_props:
  assumes st: "tz_step env col d h = (r, h')"
  shows "next_addr h \<le> next_addr h'
       \<and> (\<forall>a. a < next_addr h \<and> a \<noteq> d \<longrightarrow> frames h' a = frames h a)
       \<and> (\<forall>a. a < next_addr h \<longrightarrow> arrays h' a = arrays h a)
       \<and> (\<forall>d'. r = Inr d' \<longrightarrow> d' = d \<or> d' = Suc (next_addr h))
       \<and> (\<forall>d' f. r = Inr d' \<and> frames h d = Some f \<longrightarrow>
            (\<exists>f'. frames h' d' = Some f' \<and> map fst (f_columns f') = map fst (f_columns f)
                 \<and> f_kind f' = f_kind f))
       \<and> (\<forall>d'. r = Inr d' \<and> d < next_addr h \<longrightarrow> d' < next_addr h')"
proof (cases "frames h d")
  case None
  with st show ?thesis by (simp add: tz_step_def) auto
next
  case (Some f)
  show ?thesis
  proof (cases "ambiguous_column f col")
    case True
    with st Some show ?thesis by (simp add: tz_step_def) auto
  next
    case dup: False
    show ?thesis
    proof (cases "column_series h f col")
      case None
      with st Some dup show ?thesis by (simp add: tz_step_def) auto
    next
      case s: (Some s)
      show ?thesis
      proof (cases "s_dtype s")
        case (DatetimeTZDtype tz)
        with st Some dup s have "r = Inr d"
          and "h' = h\<lparr>arrays := (arrays h)(next_addr h \<mapsto> tz_convert env s),
                      next_addr := Suc (next_addr h),
                      frames := (frames h)
                        (d \<mapsto> f\<lparr>f_columns := rebind (f_columns f) col (next_addr h)\<rparr>)\<rparr>"
          by (simp_all add: tz_step_def alloc_array_def)
        with Some show ?thesis by (simp add: rebind_names)
      next
        case (PlDatetime tz)
        show ?thesis
        proof (cases "HAS_POLARS env")
          case True
          with st Some dup s PlDatetime have "r = Inr (Suc (next_addr h))"
            and "h' = h\<lparr>arrays := (arrays h)(next_addr h \<mapsto> replace_time_zone env s),
                      frames := (frames h)
                        (Suc (next_addr h) \<mapsto>
                           f\<lparr>f_columns := rebind (f_columns f) col (next_addr h)\<rparr>),
                      next_addr := Suc (Suc (next_addr h))\<rparr>"
            by (simp_all add: tz_step_def alloc_array_def alloc_frame_def)
          with Some show ?thesis by (simp add: rebind_names)
        next
          case False
          with st Some dup s PlDatetime show ?thesis by (simp add: tz_step_def) auto
        qed
      next
        case (OtherDtype t)
        with st Some dup s show ?thesis by (simp add: tz_step_def) auto
      qed
    qed
  qed
qed

lemma tz_step_inv:
  assumes "tz_step env col d h = (r, h')" and "n0 \<le> d" and "n0 \<le> next_addr h"
  shows "n0 \<le> next_addr h'
       \<and> (\<forall>a < n0. frames h' a = frames h a \<and> arrays h' a = arrays h a)
       \<and> (\<forall>d'. r = Inr d' \<longrightarrow> n0 \<le> d')"
proof -
  note p = tz_step_props [OF assms(1)]
  from p assms(3) have "n0 \<le> next_addr h'" by linarith
  moreover have "\<forall>a < n0. frames h' a = frames h a \<and> arrays h' a = arrays h a"
  proof (intro allI impI)
    fix a assume "a < n0"
    with assms(2,3) have "a < next_addr h" "a \<noteq> d" by simp_all
    with p show "frames h' a = frames h a \<and> arrays h' a = arrays h a" by blast
  qed
  moreover have "\<forall>d'. r = Inr d' \<longrightarrow> n0 \<le> d'"
  proof (intro allI impI)
    fix d' assume "r = Inr d'"
    with p have "d' = d \<or> d' = Suc (next_addr h)" by blast
    with assms(2,3) show "n0 \<le> d'" by auto
  qed
  ultimately show ?thesis by blast
qed

lemma tz_step_names:
  assumes "tz_step env col d h = (Inr d', h')" and "frames h d = Some f"
    and "d < next_addr h"
  shows "\<exists>f'. frames h' d' = Some f' \<and> map fst (f_columns f') = map fst (f_columns f)
            \<and> f_kind f' = f_kind f \<and> d' < next_addr h'"
  using tz_step_props [OF assms(1)] assms(2,3) by blast

lemma distinct_count_list_le_1: "distinct xs \<Longrightarrow> count_list xs x \<le> 1"
  by (induction xs) (auto simp: count_list_0_iff)

lemma tz_step_returns:
  assumes "frames h d = Some f" and "distinct (map fst (f_columns f))"
  shows "\<exists>d' h'. tz_step env col d h = (Inr d', h')"
proof -
  have c: "\<not> ambiguous_column f col"
    using distinct_count_list_le_1 [OF assms(2), of col] by (simp add: ambiguous_column_def)
  show ?thesis
  proof (cases "column_series h f col")
    case None
    with assms(1) c show ?thesis by (simp add: tz_step_def)
  next
    case (Some s)
    with assms(1) c show ?thesis
      by (cases "s_dtype s") (simp_all add: tz_step_def alloc_array_def alloc_frame_def)
  qed
qed

lemma tz_loop_inv:
  assumes "tz_loop env cols d h = (r, h')" and "n0 \<le> d" and "n0 \<le> next_addr h"
  shows "(\<forall>a < n0. frames h' a = frames h a \<and> arrays h' a = arrays h a)
       \<and> (\<forall>d'. r = Inr d' \<longrightarrow> n0 \<le> d')"
  using assms
proof (induction cols arbitrary: d h)
  case Nil
  then show ?case by auto
next
  case (Cons col cols)
  obtain r1 h1 where s: "tz_step env col d h = (r1, h1)" by (cases "tz_step env col d h")
  note i = tz_step_inv [OF s Cons.prems(2,3)]
  show ?case
  proof (cases r1)
    case (Inl x)
    with Cons.prems(1) s have "h' = h1" "r = Inl x" by simp_all
    with i show ?thesis by simp
  next
    case (Inr d1)
    with Cons.prems(1) s have l: "tz_loop env cols d1 h1 = (r, h')" by simp
    from i Inr have "n0 \<le> d1" "n0 \<le> next_addr h1" by simp_all
    from Cons.IH [OF l this] i show ?thesis by simp
  qed
qed

lemma tz_loop_returns:
  assumes "frames h d = Some f" and "distinct (map fst (f_columns f))" and "d < next_addr h"
  shows "\<exists>d' h' f'. tz_loop env cols d h = (Inr d', h') \<and> frames h' d' = Some f'
            \<and> map fst (f_columns f') = map fst (f_columns f) \<and> f_kind f' = f_kind f"
  using assms
proof (induction cols arbitrary: d h f)
  case Nil
  then show ?case by simp
next
  case (Cons col cols)
  from tz_step_returns [OF Cons.prems(1,2)] obtain d1 h1 where
    s: "tz_step env col d h = (Inr d1, h1)" by blast
  from tz_step_names [OF s Cons.prems(1,3)] obtain f1 where
    f1: "frames h1 d1 = Some f1" "map fst (f_columns f1) = map fst (f_columns f)"
      "f_kind f1 = f_kind f" "d1 < next_addr h1" by blast
  from Cons.prems(2) f1(2) have "distinct (map fst (f_columns f1))" by simp
  from Cons.IH [OF f1(1) this f1(4)] obtain d' h' f' where
    "tz_loop env cols d1 h1 = (Inr d', h')" "frames h' d' = Some f'"
    "map fst (f_columns f') = map fst (f_columns f1)" "f_kind f' = f_kind f1" by blast
  with s f1 show ?case by simp
qed

text \<open>
  Claim C10. The function is called on a pandas dataframe object, or on a polars one with
  polars installed, in a well-formed store. Whatever it returns or raises, the caller's
  dataframe object is as it was, with the same column names and the same arrays, and
  every array and every dataframe object that existed before the call is unchanged: all
  writes go to objects created by the call. When the sanitized column names are distinct,
  the function returns a dataframe object that did not exist before, of the same library,
  whose column names are the sanitized names.
\<close>

theorem convert_to_default_dataframe_leaves_original:
  assumes ok: "store_ok h"
    and fr: "frames h d = Some f"
    and kind: "f_kind f = Pandas \<or> HAS_POLARS env"
  shows "\<exists>r h'. convert_to_default_dataframe env (FrameRef d) h = (r, h')
          \<and> frames h' d = Some f
          \<and> (\<forall>a < next_addr h. frames h' a = frames h a \<and> arrays h' a = arrays h a)
          \<and> (distinct (map (autofix_feature_name env) (map fst (f_columns f))) \<longrightarrow>
               (\<exists>d' f'. r = Inr (Some d') \<and> next_addr h \<le> d' \<and> frames h d' = None
                  \<and> frames h' d' = Some f' \<and> f_kind f' = f_kind f
                  \<and> map fst (f_columns f')
                      = map (autofix_feature_name env) (map fst (f_columns f))))"
proof -
  define n where "n = next_addr h"
  have dn: "d < n"
    using ok fr unfolding store_ok_def n_def by (metis not_le_imp_less option.distinct(1))
  define names where "names = map (autofix_feature_name env) (map fst (f_columns f))"
  define fc where "fc = f\<lparr>f_columns := zip names (map snd (f_columns f))\<rparr>"
  have fcn: "map fst (f_columns fc) = names" "f_kind fc = f_kind f"
    by (simp_all add: fc_def names_def)
  define h1 where "h1 = h\<lparr>frames := (frames h)(next_addr h \<mapsto> f),
                           next_addr := Suc (next_addr h)\<rparr>"
  define h2 where "h2 =
     (if length (filter has_upper (map fst (f_columns f))) > 0
      then h1\<lparr>issued := issued h1
              @ [UpperCaseWarning (filter has_upper (map fst (f_columns f)))]\<rparr>
      else h1)"
  define h3 where "h3 =
     (if length (filter has_space (map fst (f_columns f))) > 0
      then h2\<lparr>issued := issued h2 @ [SpaceWarning (filter has_space (map fst (f_columns f)))]\<rparr>
      else h2)"
  define h3' where "h3' = h3\<lparr>frames := (frames h3)(next_addr h \<mapsto> fc)\<rparr>"
  have h3f: "frames h3 = (frames h)(n \<mapsto> f)" "arrays h3 = arrays h" "next_addr h3 = Suc n"
    by (simp_all add: h3_def h2_def h1_def n_def)
  have h3'f: "frames h3' = (frames h)(n \<mapsto> fc)" "arrays h3' = arrays h"
    "next_addr h3' = Suc n"
    by (simp_all add: h3'_def h3f n_def)
  have kind': "f_kind f = Pandas \<or> (HAS_POLARS env \<and> f_kind f = Polars)"
    using kind by (cases "f_kind f") auto
  have conv: "convert_to_default_dataframe env (FrameRef d) h =
     (if f_kind f = Polars \<and> \<not> distinct names then (Inl (DuplicateError ''columns''), h3)
      else (case tz_loop env names (next_addr h) h3' of
              (Inl x, h4) \<Rightarrow> (Inl x, h4)
            | (Inr d', h4) \<Rightarrow> (Inr (Some d'), h4)))"
    unfolding convert_to_default_dataframe_def h3'_def h3_def h2_def h1_def names_def fc_def
      Let_def alloc_frame_def
    by (simp only: py_obj.case fr option.case kind' if_True prod.case)
  obtain rl h4 where l: "tz_loop env names n h3' = (rl, h4)"
    by (cases "tz_loop env names n h3'")
  note conv = conv [folded n_def]
  have "n \<le> n" "n \<le> next_addr h3'" by (simp_all add: h3'f)
  from tz_loop_inv [OF l this]
  have keep4: "\<forall>a < n. frames h4 a = frames h a \<and> arrays h4 a = arrays h a"
    by (simp add: h3'f)
  have keep3: "\<forall>a < n. frames h3 a = frames h a \<and> arrays h3 a = arrays h a"
    by (simp add: h3f)
  have fresh: "frames h n = None"
    using ok unfolding store_ok_def n_def by simp
  show ?thesis
  proof (cases "f_kind f = Polars \<and> \<not> distinct names")
    case True
    then have "convert_to_default_dataframe env (FrameRef d) h
        = (Inl (DuplicateError ''columns''), h3)" unfolding conv by simp
    moreover from keep3 dn fr have "frames h3 d = Some f" by simp
    ultimately show ?thesis using keep3 True unfolding n_def names_def by auto
  next
    case False
    have e: "convert_to_default_dataframe env (FrameRef d) h
        = (case tz_loop env names n h3' of
              (Inl x, h4) \<Rightarrow> (Inl x, h4)
            | (Inr d', h4) \<Rightarrow> (Inr (Some d'), h4))"
      unfolding conv using False by (rule if_not_P)
    have c: "convert_to_default_dataframe env (FrameRef d) h
        = (case rl of Inl x \<Rightarrow> Inl x | Inr d' \<Rightarrow> Inr (Some d'), h4)"
      unfolding e l by (cases rl) simp_all
    from keep4 dn fr have orig: "frames h4 d = Some f" by simp
    have ret: "\<exists>d' f'. (case rl of Inl x \<Rightarrow> Inl x | Inr d' \<Rightarrow> Inr (Some d')) = Inr (Some d')
                  \<and> n \<le> d' \<and> frames h d' = None
                  \<and> frames h4 d' = Some f' \<and> f_kind f' = f_kind f
                  \<and> map fst (f_columns f') = names"
      if dist: "distinct names"
    proof -
      have "frames h3' n = Some fc" "distinct (map fst (f_columns fc))" "n < next_addr h3'"
        using dist by (simp_all add: h3'f fcn)
      from tz_loop_returns [OF this, of env names] l obtain d' f' where
        r: "rl = Inr d'" and f': "frames h4 d' = Some f'"
        "map fst (f_columns f') = map fst (f_columns fc)" "f_kind f' = f_kind fc"
        by auto
      from tz_loop_inv [OF l \<open>n \<le> n\<close> \<open>n \<le> next_addr h3'\<close>] r have nd: "n \<le> d'" by simp
      with ok have "frames h d' = None" unfolding store_ok_def n_def by simp
      with r f' nd fcn show ?thesis by simp
    qed
    show ?thesis
      using c orig keep4 ret unfolding n_def names_def by auto
  qed
qed

lemma sanitized_names:
  "map sanitize_char ''My Ts'' = ''my_ts'' \<and> map sanitize_char ''b'' = ''b''"
  by code_simp

theorem convert_to_default_dataframe_leaves_original_witness:
  "\<exists>d' h' f'. convert_to_default_dataframe env_pandas (FrameRef 0) store_ts = (Inr (Some d'), h')
      \<and> d' \<noteq> 0 \<and> frames h' 0 = Some frame_ts
      \<and> frames h' d' = Some f' \<and> map fst (f_columns f') = [''my_ts'', ''b'']"
proof -
  have ok: "store_ok store_ts" by (simp add: store_ok_def store_ts_def)
  have fr: "frames store_ts 0 = Some frame_ts" by (simp add: store_ts_def)
  have kind: "f_kind frame_ts = Pandas \<or> HAS_POLARS env_pandas" by (simp add: frame_ts_def)
  have names: "map (autofix_feature_name env_pandas) (map fst (f_columns frame_ts))
      = [''my_ts'', ''b'']"
    using sanitized_names by (simp add: env_pandas_def frame_ts_def)
  from convert_to_default_dataframe_leaves_original [OF ok fr kind] names
  show ?thesis by (simp add: store_ts_def) fastforce
qed

end
